theory Spec2Isabelle
  imports Complex_Main "HOL-Library.AList" "HOL-Library.Char_ord" "HOL-Library.List_Lexorder"
    "HOL-Library.Multiset" "HOL-Library.Word"
begin

section \<open>Data model\<close>

text \<open>
  The order page (\<^verbatim>\<open>src/components/OrdersPage.tsx\<close>) works on two representations of
  an order: the camel-cased \<^verbatim>\<open>Order\<close> objects held in React state, and the rows of the
  remote \<^verbatim>\<open>Orders\<close> table (\<^verbatim>\<open>DBOrder\<close>, snake-cased columns), which the handlers write
  through the supabase client. Both are modelled. A JavaScript number is modelled by the
  rational value of the finite double it is; NaN and the infinities have no counterpart.
\<close>

subsection \<open>Order status\<close>

text \<open>
  \<^verbatim>\<open>DBOrder.status\<close> is a \<^verbatim>\<open>string\<close>, and the page compares \<^verbatim>\<open>o.status\<close> with string
  valued filters, so a status is a string at run time.
\<close>

type_synonym OrderStatus = string

text \<open>
  Modelled from the spec: the enum \<^verbatim>\<open>OrderStatus\<close> is declared in \<^verbatim>\<open>types.ts\<close>, which is
  not among the sources. These are its seven literals as section 4.1 of the specification
  lists them, each standing for the string of the same name.
\<close>

definition NEW :: OrderStatus where "NEW = ''NEW''"
definition ORDERED :: OrderStatus where "ORDERED = ''ORDERED''"
definition SHIPPED_FROM_STORE :: OrderStatus where "SHIPPED_FROM_STORE = ''SHIPPED_FROM_STORE''"
definition ARRIVED_AT_OFFICE :: OrderStatus where "ARRIVED_AT_OFFICE = ''ARRIVED_AT_OFFICE''"
definition STORED :: OrderStatus where "STORED = ''STORED''"
definition OUT_FOR_DELIVERY :: OrderStatus where "OUT_FOR_DELIVERY = ''OUT_FOR_DELIVERY''"
definition COMPLETED :: OrderStatus where "COMPLETED = ''COMPLETED''"

definition OrderStatus_values :: "OrderStatus list" where
  "OrderStatus_values =
     [NEW, ORDERED, SHIPPED_FROM_STORE, ARRIVED_AT_OFFICE, STORED, OUT_FOR_DELIVERY, COMPLETED]"

subsection \<open>Orders in React state\<close>

record HistoryEntry =
  timestamp :: string
  activity :: string
  user :: "string option"

text \<open>
  The fields of \<^verbatim>\<open>Order\<close> that the modelled handlers and the list view read. An optional
  field (\<^verbatim>\<open>undefined\<close> when absent) is an \<open>option\<close>. \<open>oid\<close> is the field \<^verbatim>\<open>id\<close>.
\<close>

record Order =
  oid :: string
  localOrderId :: string
  clientId :: string
  storeId :: string
  status :: OrderStatus
  trackingNumber :: "string option"
  expectedArrivalDate :: "string option"
  isInvoicePrinted :: bool
  whatsappNotificationSent :: bool
  amountPaid :: "rat option"
  transactionFee :: "rat option"
  localDeliveryCost :: "rat option"
  history :: "HistoryEntry list option"

subsection \<open>The remote store\<close>

text \<open>
  A value of a column (or of a JSON payload property), and a row as an association list
  from column names to values, as a JavaScript object literal lists them.
\<close>

datatype jval =
    JStr string
  | JNum rat
  | JBool bool
  | JStrs "string list"
  | JHist "HistoryEntry list"
  | JNull

type_synonym db_row = "(string \<times> jval) list"

datatype request =
    Insert string db_row
  | Update string db_row string string
  | Delete string string string
  | SignIn string string

text \<open>
  The outcome of one remote call: the \<^verbatim>\<open>error\<close> property of the awaited result (or a
  thrown exception), carrying the text that \<^verbatim>\<open>getErrorMessage\<close> extracts from it.
\<close>

datatype remote_result = Ok | Failed string

record RemoteStore =
  Orders :: "db_row list"
  OrderPayments :: "db_row list"
  requests :: "request list"

text \<open>
  Modelled from the spec: the remote store behind the supabase client, whose code is not
  among the sources; section 2 of the specification (RemoteStore) describes it as
  row-level CRUD over tables.
  \<^verbatim>\<open>from(t).update(p).eq(c, v)\<close> overwrites the columns listed in \<open>p\<close> in every row whose
  column \<open>c\<close> holds the string \<open>v\<close>; \<^verbatim>\<open>from(t).insert(p)\<close> adds the row \<open>p\<close>;
  \<^verbatim>\<open>from(t).delete().eq(c, v)\<close> removes the matching rows. A call that reports an error
  changes no row. Every call, failed or not, is recorded in \<open>requests\<close> in the order issued.
\<close>

definition row_matches :: "string \<Rightarrow> string \<Rightarrow> db_row \<Rightarrow> bool" where
  "row_matches col val r = (map_of r col = Some (JStr val))"

definition apply_update :: "db_row \<Rightarrow> string \<Rightarrow> string \<Rightarrow> db_row \<Rightarrow> db_row" where
  "apply_update payload col val r = (if row_matches col val r then AList.merge r payload else r)"

definition update_Orders ::
  "remote_result \<Rightarrow> db_row \<Rightarrow> string \<Rightarrow> string \<Rightarrow> RemoteStore \<Rightarrow> RemoteStore" where
  "update_Orders res payload col val rs =
     rs\<lparr> requests := requests rs @ [Update ''Orders'' payload col val],
         Orders := (case res of
                      Ok \<Rightarrow> map (apply_update payload col val) (Orders rs)
                    | Failed e \<Rightarrow> Orders rs) \<rparr>"

definition insert_Orders :: "remote_result \<Rightarrow> string \<Rightarrow> db_row \<Rightarrow> RemoteStore \<Rightarrow> RemoteStore" where
  "insert_Orders res new_id payload rs =
     rs\<lparr> requests := requests rs @ [Insert ''Orders'' payload],
         Orders := (case res of
                      Ok \<Rightarrow> Orders rs @ [AList.update ''id'' (JStr new_id) payload]
                    | Failed e \<Rightarrow> Orders rs) \<rparr>"

definition delete_Orders :: "remote_result \<Rightarrow> string \<Rightarrow> string \<Rightarrow> RemoteStore \<Rightarrow> RemoteStore" where
  "delete_Orders res col val rs =
     rs\<lparr> requests := requests rs @ [Delete ''Orders'' col val],
         Orders := (case res of
                      Ok \<Rightarrow> filter (\<lambda>r. \<not> row_matches col val r) (Orders rs)
                    | Failed e \<Rightarrow> Orders rs) \<rparr>"

definition insert_OrderPayments :: "remote_result \<Rightarrow> db_row \<Rightarrow> RemoteStore \<Rightarrow> RemoteStore" where
  "insert_OrderPayments res payload rs =
     rs\<lparr> requests := requests rs @ [Insert ''OrderPayments'' payload],
         OrderPayments := (case res of
                             Ok \<Rightarrow> OrderPayments rs @ [payload]
                           | Failed e \<Rightarrow> OrderPayments rs) \<rparr>"

definition auth_signInWithPassword :: "string \<Rightarrow> string \<Rightarrow> RemoteStore \<Rightarrow> RemoteStore" where
  "auth_signInWithPassword email password rs =
     rs\<lparr> requests := requests rs @ [SignIn email password] \<rparr>"

subsection \<open>Component state and environment\<close>

text \<open>
  A toast shown by \<^verbatim>\<open>showToast\<close>. The success texts are fixed Arabic strings of the source
  and are named rather than spelled; an error toast carries \<^verbatim>\<open>getErrorMessage(e)\<close>.
\<close>

datatype toast =
    ToastOrderUpdated
  | ToastOrderAdded
  | ToastStatusUpdated
  | ToastPaymentRegistered
  | ToastWhatsappOpened
  | ToastInvoiceUpdated
  | ToastReverted
  | ToastDeleted
  | ToastWrongPassword
  | ToastError string

text \<open>
  A search term is a JavaScript string, a sequence of UTF-16 code units; \<open>ascii\<close> writes
  one from the characters of ASCII.
\<close>

type_synonym js_string = "16 word list"

definition ascii :: "string \<Rightarrow> js_string" where
  "ascii s = map of_char s"

text \<open>
  A timer of the browser, made by \<^verbatim>\<open>setTimeout\<close>: its id, the time it is due (milliseconds),
  and what its callback closes over, namely the term and the instance of the page whose
  state it sets. A call of \<^verbatim>\<open>searchOrders\<close>: the time it is made, its term, and the
  instance of the page that awaits the reply.
\<close>

record Timer =
  timerId :: nat
  due :: nat
  captured :: js_string
  owner :: nat

record SearchCall =
  issuedAt :: nat
  query :: js_string
  awaitedBy :: nat

text \<open>
  The state the handlers of \<^verbatim>\<open>OrdersPage\<close> read and write: the module-level \<^verbatim>\<open>supabase\<close>
  client (\<^verbatim>\<open>null\<close> when not configured) with the store behind it, the \<^verbatim>\<open>orders\<close> prop, the
  component's \<^verbatim>\<open>useState\<close> cells and its ref \<^verbatim>\<open>searchTimeoutRef\<close> (the id of the last
  timer armed), whether the page is mounted and which instance of it (counted from the
  first mount) is the current one, the timers of the browser that have neither fired nor
  been cleared, the id the next timer gets, the calls made to \<^verbatim>\<open>searchOrders\<close> in the
  order issued, and the toasts shown.
\<close>

record AppState =
  supabase :: "RemoteStore option"
  orders :: "Order list"
  searchResults :: "Order list option"
  selectedOrder :: "Order option"
  isSearching :: bool
  searchTimeoutRef :: "nat option"
  mounted :: bool
  pageInstance :: nat
  timers :: "Timer list"
  nextTimerId :: nat
  searchCalls :: "SearchCall list"
  isFormModalOpen :: bool
  isStatusModalOpen :: bool
  isPaymentModalOpen :: bool
  isNotificationModalOpen :: bool
  isDeleteModalOpen :: bool
  isSaving :: bool
  toasts :: "toast list"

text \<open>
  What a handler reads from outside the component: the signed-in user's name and e-mail
  (\<^verbatim>\<open>currentUser?.username\<close>, \<^verbatim>\<open>currentUser?.email\<close>), the clock
  (\<^verbatim>\<open>new Date().toISOString()\<close>) and the text JavaScript prints for a number in a
  template string.
\<close>

record Env =
  username :: "string option"
  email :: "string option"
  now :: string
  num_text :: "rat \<Rightarrow> string"

definition showToast :: "toast \<Rightarrow> AppState \<Rightarrow> AppState" where
  "showToast t st = st\<lparr> toasts := toasts st @ [t] \<rparr>"

text \<open>\<^verbatim>\<open>order.history || []\<close>\<close>

definition history_or_empty :: "HistoryEntry list option \<Rightarrow> HistoryEntry list" where
  "history_or_empty h = (case h of None \<Rightarrow> [] | Some xs \<Rightarrow> xs)"

text \<open>\<^verbatim>\<open>Number(x) || 0\<close>\<close>

definition number_or_zero :: "rat option \<Rightarrow> rat" where
  "number_or_zero x = (case x of None \<Rightarrow> 0 | Some q \<Rightarrow> (if q = 0 then 0 else q))"

subsection \<open>Addition of numbers\<close>

text \<open>
  \<^verbatim>\<open>a + b\<close> on numbers is the addition of IEEE 754 doubles: the exact sum, rounded to the
  nearest double, a tie going to the even significand. \<open>bit_length n\<close> is the number of
  binary digits of a positive integer, \<open>pow2 k\<close> the power of two with exponent \<open>k\<close>,
  \<open>exponent_of q\<close> the exponent \<open>e\<close> with \<open>pow2 e \<le> q < pow2 (e + 1)\<close> of a positive
  rational, and \<open>round_double\<close> rounds to 53 significant bits (to a multiple of
  \<open>pow2 (- 1074)\<close> in the subnormal range). A sum beyond the largest double, which
  JavaScript gives as an infinity, is outside the model.
\<close>

function bit_length :: "int \<Rightarrow> int" where
  "bit_length n = (if n \<le> 0 then 0 else 1 + bit_length (n div 2))"
  by pat_completeness auto
termination
  by (relation "measure nat") auto

definition pow2 :: "int \<Rightarrow> rat" where
  "pow2 k = (if 0 \<le> k then 2 ^ nat k else 1 / 2 ^ nat (- k))"

definition exponent_of :: "rat \<Rightarrow> int" where
  "exponent_of q =
     (let k = bit_length (fst (quotient_of q)) - bit_length (snd (quotient_of q))
      in if pow2 k \<le> q then k else k - 1)"

definition round_half_even :: "rat \<Rightarrow> int" where
  "round_half_even y =
     (let f = \<lfloor>y\<rfloor>; r = y - of_int f
      in if r < 1 / 2 then f else if 1 / 2 < r then f + 1 else if even f then f else f + 1)"

definition round_double :: "rat \<Rightarrow> rat" where
  "round_double q =
     (if q = 0 then 0
      else (let ulp = pow2 (max (exponent_of \<bar>q\<bar>) (- 1022) - 52)
            in of_int (round_half_even (q / ulp)) * ulp))"

definition js_add :: "rat \<Rightarrow> rat \<Rightarrow> rat" where
  "js_add a b = round_double (a + b)"

section \<open>Reverting a status\<close>

text \<open>
  The \<^verbatim>\<open>switch\<close> of \<^verbatim>\<open>handleRevertStatus\<close>; \<open>None\<close> is its \<^verbatim>\<open>default: return false\<close>.
\<close>

definition prevStatus_of :: "OrderStatus \<Rightarrow> OrderStatus option" where
  "prevStatus_of s =
     (if s = ORDERED then Some NEW
      else if s = SHIPPED_FROM_STORE then Some ORDERED
      else if s = ARRIVED_AT_OFFICE then Some SHIPPED_FROM_STORE
      else if s = STORED then Some ARRIVED_AT_OFFICE
      else if s = OUT_FOR_DELIVERY then Some STORED
      else if s = COMPLETED then Some OUT_FOR_DELIVERY
      else None)"

definition revert_payload :: "Env \<Rightarrow> Order \<Rightarrow> OrderStatus \<Rightarrow> db_row" where
  "revert_payload env order prevStatus =
     [(''status'', JStr prevStatus),
      (''history'', JHist (history_or_empty (history order) @
         [\<lparr> timestamp = now env, activity = ''Status reverted to '' @ prevStatus,
            user = username env \<rparr>]))]"

text \<open>
  \<^verbatim>\<open>handleRevertStatus(orderId, password?)\<close>. \<open>res\<close> is the outcome of the one remote
  update. The parameter \<open>password\<close> is accepted and, as in the source, never read.
\<close>

definition handleRevertStatus ::
  "Env \<Rightarrow> remote_result \<Rightarrow> string \<Rightarrow> string option \<Rightarrow> AppState \<Rightarrow> bool \<times> AppState" where
  "handleRevertStatus env res orderId password st =
     (case supabase st of
        None \<Rightarrow> (False, st)
      | Some rs \<Rightarrow>
          (case find (\<lambda>x. oid x = orderId) (orders st) of
             None \<Rightarrow> (False, st)
           | Some order \<Rightarrow>
               (case prevStatus_of (status order) of
                  None \<Rightarrow> (False, st)
                | Some prevStatus \<Rightarrow>
                    (let st' = st\<lparr> supabase :=
                           Some (update_Orders res (revert_payload env order prevStatus)
                                   ''id'' orderId rs) \<rparr>
                     in case res of
                          Failed e \<Rightarrow> (False, showToast (ToastError e) st')
                        | Ok \<Rightarrow> (True, showToast ToastReverted st')))))"

section \<open>Changing a status\<close>

text \<open>
  The \<^verbatim>\<open>payload: Partial<Order>\<close> of \<^verbatim>\<open>handleUpdateOrderStatus\<close>: the sixteen properties
  the handler looks at, each absent (\<open>None\<close>) or present. The field \<open>f_opt\<close> is the
  property \<^verbatim>\<open>f\<close>.
\<close>

record OrderPartial =
  status_opt :: "string option"
  globalOrderId_opt :: "string option"
  trackingNumber_opt :: "string option"
  weight_opt :: "rat option"
  shippingCost_opt :: "rat option"
  storageLocation_opt :: "string option"
  arrivalDateAtOffice_opt :: "string option"
  storageDate_opt :: "string option"
  withdrawalDate_opt :: "string option"
  orderImages_opt :: "string list option"
  trackingImages_opt :: "string list option"
  weighingImages_opt :: "string list option"
  hubArrivalImages_opt :: "string list option"
  originCenter_opt :: "string option"
  shippingType_opt :: "string option"
  localDeliveryCost_opt :: "rat option"

text \<open>
  \<^verbatim>\<open>if (payload.f) dbPayload.c = payload.f\<close> for a string (truthy when present and not
  empty, whatever its characters are) and for an array (truthy when present), and
  \<^verbatim>\<open>if (payload.f !== undefined) dbPayload.c = payload.f\<close> for a number.
\<close>

definition truthy_string :: "'a list option \<Rightarrow> bool" where
  "truthy_string v = (case v of None \<Rightarrow> False | Some s \<Rightarrow> s \<noteq> [])"

definition if_truthy :: "string \<Rightarrow> string option \<Rightarrow> db_row" where
  "if_truthy col v = (case v of None \<Rightarrow> [] | Some s \<Rightarrow> (if s \<noteq> [] then [(col, JStr s)] else []))"

definition if_array :: "string \<Rightarrow> string list option \<Rightarrow> db_row" where
  "if_array col v = (case v of None \<Rightarrow> [] | Some xs \<Rightarrow> [(col, JStrs xs)])"

definition if_defined :: "string \<Rightarrow> rat option \<Rightarrow> db_row" where
  "if_defined col v = (case v of None \<Rightarrow> [] | Some q \<Rightarrow> [(col, JNum q)])"

text \<open>\<^verbatim>\<open>payload.status || 'Updated'\<close>\<close>

definition status_or_Updated :: "string option \<Rightarrow> string" where
  "status_or_Updated v = (if truthy_string v then the v else ''Updated'')"

definition status_history :: "Env \<Rightarrow> Order option \<Rightarrow> OrderPartial \<Rightarrow> HistoryEntry list" where
  "status_history env order payload =
     (case order of None \<Rightarrow> [] | Some x \<Rightarrow> history_or_empty (history x)) @
     [\<lparr> timestamp = now env,
        activity = ''Status changed to '' @ status_or_Updated (status_opt payload),
        user = username env \<rparr>]"

definition status_dbPayload :: "Env \<Rightarrow> Order option \<Rightarrow> OrderPartial \<Rightarrow> db_row" where
  "status_dbPayload env order payload =
     if_truthy ''status'' (status_opt payload) @
     if_truthy ''global_order_id'' (globalOrderId_opt payload) @
     if_truthy ''tracking_number'' (trackingNumber_opt payload) @
     if_defined ''weight'' (weight_opt payload) @
     if_defined ''shipping_cost'' (shippingCost_opt payload) @
     if_truthy ''storage_location'' (storageLocation_opt payload) @
     if_truthy ''arrival_date_at_office'' (arrivalDateAtOffice_opt payload) @
     if_truthy ''storage_date'' (storageDate_opt payload) @
     if_truthy ''withdrawal_date'' (withdrawalDate_opt payload) @
     if_array ''order_images'' (orderImages_opt payload) @
     if_array ''tracking_images'' (trackingImages_opt payload) @
     if_array ''weighing_images'' (weighingImages_opt payload) @
     if_array ''hub_arrival_images'' (hubArrivalImages_opt payload) @
     if_truthy ''origin_center'' (originCenter_opt payload) @
     if_truthy ''shipping_type'' (shippingType_opt payload) @
     if_defined ''local_delivery_cost'' (localDeliveryCost_opt payload) @
     [(''history'', JHist (status_history env order payload))]"

text \<open>\<^verbatim>\<open>orderId.includes('-') ? 'id' : 'local_order_id'\<close>\<close>

definition id_column :: "string \<Rightarrow> string" where
  "id_column orderId = (if CHR ''-'' \<in> set orderId then ''id'' else ''local_order_id'')"

text \<open>
  \<^verbatim>\<open>handleUpdateOrderStatus(orderId, payload)\<close>. The history written is the history of
  the order found in \<^verbatim>\<open>orders\<close> (\<^verbatim>\<open>order?.history || []\<close>: empty when none is found)
  with one entry appended. The status of the payload is copied as it is.
\<close>

definition handleUpdateOrderStatus ::
  "Env \<Rightarrow> remote_result \<Rightarrow> string \<Rightarrow> OrderPartial \<Rightarrow> AppState \<Rightarrow> AppState" where
  "handleUpdateOrderStatus env res orderId payload st =
     (case supabase st of
        None \<Rightarrow> st
      | Some rs \<Rightarrow>
          (let order = find (\<lambda>x. oid x = orderId) (orders st);
               st' = st\<lparr> supabase :=
                     Some (update_Orders res (status_dbPayload env order payload)
                             (id_column orderId) orderId rs) \<rparr>
           in case res of
                Failed e \<Rightarrow> showToast (ToastError e) st'
              | Ok \<Rightarrow> (showToast ToastStatusUpdated st')\<lparr> isStatusModalOpen := False \<rparr>))"

section \<open>Registering a payment\<close>

text \<open>
  The \<^verbatim>\<open>details\<close> object of \<^verbatim>\<open>handlePaymentConfirm\<close>; the field \<open>f_d\<close> is \<^verbatim>\<open>details.f\<close>.
\<close>

record PaymentDetails =
  amountPaid_d :: rat
  paymentMethod_d :: string
  receiptImages_d :: "string list"
  localDeliveryCost_d :: rat
  transactionFee_d :: rat

text \<open>\<^verbatim>\<open>currentUser?.username || 'System'\<close>\<close>

definition user_or_System :: "Env \<Rightarrow> string" where
  "user_or_System env = (if truthy_string (username env) then the (username env) else ''System'')"

definition payment_row :: "Env \<Rightarrow> Order \<Rightarrow> PaymentDetails \<Rightarrow> db_row" where
  "payment_row env sel details =
     [(''order_id'', JStr (oid sel)),
      (''amount'', JNum (amountPaid_d details)),
      (''payment_method'', JStr (paymentMethod_d details)),
      (''receipt_images'', JStrs (receiptImages_d details)),
      (''created_by'', JStr (user_or_System env)),
      (''notes'', JStr ''Manual Update from Card'')]"

definition payment_entry :: "Env \<Rightarrow> PaymentDetails \<Rightarrow> HistoryEntry" where
  "payment_entry env details =
     \<lparr> timestamp = now env,
       activity = ''Registered payment: '' @ num_text env (amountPaid_d details) @ '' MRU'',
       user = Some (user_or_System env) \<rparr>"

definition payment_order_update :: "Env \<Rightarrow> Order \<Rightarrow> PaymentDetails \<Rightarrow> db_row" where
  "payment_order_update env sel details =
     [(''amount_paid'', JNum (js_add (number_or_zero (amountPaid sel)) (amountPaid_d details))),
      (''local_delivery_cost'', JNum (localDeliveryCost_d details)),
      (''transaction_fee'',
         JNum (js_add (number_or_zero (transactionFee sel)) (transactionFee_d details))),
      (''history'', JHist (history_or_empty (history sel) @ [payment_entry env details]))]"

text \<open>
  \<^verbatim>\<open>handlePaymentConfirm(orderId, details)\<close>: \<open>payRes\<close> is the outcome of the insert into
  \<^verbatim>\<open>OrderPayments\<close>, \<open>orderRes\<close> that of the update of \<^verbatim>\<open>Orders\<close>, which is only issued
  when the insert reported no error. The handler works on \<^verbatim>\<open>selectedOrder\<close>; its
  parameter \<open>orderId\<close> is not read.
\<close>

definition handlePaymentConfirm ::
  "Env \<Rightarrow> remote_result \<Rightarrow> remote_result \<Rightarrow> string \<Rightarrow> PaymentDetails \<Rightarrow> AppState \<Rightarrow> AppState" where
  "handlePaymentConfirm env payRes orderRes orderId details st =
     (case supabase st of
        None \<Rightarrow> st
      | Some rs \<Rightarrow>
          (case selectedOrder st of
             None \<Rightarrow> st
           | Some sel \<Rightarrow>
               (let rs1 = insert_OrderPayments payRes (payment_row env sel details) rs
                in case payRes of
                     Failed e \<Rightarrow> showToast (ToastError e) (st\<lparr> supabase := Some rs1 \<rparr>)
                   | Ok \<Rightarrow>
                       (let rs2 = update_Orders orderRes (payment_order_update env sel details)
                                    ''id'' (oid sel) rs1;
                            st2 = st\<lparr> supabase := Some rs2 \<rparr>
                        in case orderRes of
                             Failed e \<Rightarrow> showToast (ToastError e) st2
                           | Ok \<Rightarrow> (showToast ToastPaymentRegistered st2)
                                      \<lparr> isPaymentModalOpen := False \<rparr>))))"

section \<open>Marking an invoice as sent\<close>

text \<open>\<^verbatim>\<open>o => o.id === order.id ? { ...o, isInvoicePrinted: true } : o\<close>\<close>

definition mark_printed :: "Order \<Rightarrow> Order \<Rightarrow> Order" where
  "mark_printed order x = (if oid x = oid order then x\<lparr> isInvoicePrinted := True \<rparr> else x)"

text \<open>
  \<^verbatim>\<open>handleInvoiceSent(order)\<close>: one remote update, of the column \<^verbatim>\<open>is_invoice_printed\<close>
  alone, then the two lists in React state.
\<close>

definition handleInvoiceSent :: "remote_result \<Rightarrow> Order \<Rightarrow> AppState \<Rightarrow> AppState" where
  "handleInvoiceSent res order st =
     (case supabase st of
        None \<Rightarrow> st
      | Some rs \<Rightarrow>
          (let st' = st\<lparr> supabase :=
                     Some (update_Orders res [(''is_invoice_printed'', JBool True)]
                             ''id'' (oid order) rs) \<rparr>
           in case res of
                Failed e \<Rightarrow> showToast (ToastError e) st'
              | Ok \<Rightarrow>
                  showToast ToastInvoiceUpdated
                    (st'\<lparr> orders := map (mark_printed order) (orders st'),
                          searchResults := (case searchResults st' of
                                              None \<Rightarrow> None
                                            | Some prev \<Rightarrow> Some (map (mark_printed order) prev)) \<rparr>)))"

section \<open>Deleting an order\<close>

text \<open>
  What \<^verbatim>\<open>await supabase.auth.signInWithPassword(...)\<close> does: it returns a result, with
  or without an \<^verbatim>\<open>error\<close>, or it throws.
\<close>

datatype signin_outcome = Returned remote_result | Thrown string

text \<open>
  \<^verbatim>\<open>handleDeleteOrder(password)\<close>: the password is first checked by signing in. A result
  with an error makes the handler throw the fixed text of the source, shown as
  \<open>ToastWrongPassword\<close>; an exception of the sign-in itself reaches the same \<^verbatim>\<open>catch\<close> and
  its own message is shown. In both cases no delete is issued.
\<close>

definition email_or_empty :: "Env \<Rightarrow> string" where
  "email_or_empty env = (if truthy_string (email env) then the (email env) else [])"

definition handleDeleteOrder ::
  "Env \<Rightarrow> signin_outcome \<Rightarrow> remote_result \<Rightarrow> string \<Rightarrow> AppState \<Rightarrow> AppState" where
  "handleDeleteOrder env authRes res password st =
     (case supabase st of
        None \<Rightarrow> st
      | Some rs \<Rightarrow>
          (case selectedOrder st of
             None \<Rightarrow> st
           | Some sel \<Rightarrow>
               (let rs1 = auth_signInWithPassword (email_or_empty env) password rs
                in case authRes of
                     Thrown e \<Rightarrow> showToast (ToastError e) (st\<lparr> supabase := Some rs1 \<rparr>)
                   | Returned (Failed e) \<Rightarrow>
                       showToast ToastWrongPassword (st\<lparr> supabase := Some rs1 \<rparr>)
                   | Returned Ok \<Rightarrow>
                       (let st2 = st\<lparr> supabase := Some (delete_Orders res ''id'' (oid sel) rs1) \<rparr>
                        in case res of
                             Failed e \<Rightarrow> showToast (ToastError e) st2
                           | Ok \<Rightarrow> (showToast ToastDeleted st2)
                                      \<lparr> isDeleteModalOpen := False, selectedOrder := None \<rparr>))))"

section \<open>A sequence of payments\<close>

text \<open>
  Sums over the stored rows of one order: what the ledger \<^verbatim>\<open>OrderPayments\<close> holds for it,
  and what the column \<^verbatim>\<open>amount_paid\<close> of its row says.
\<close>

definition stored_number :: "string \<Rightarrow> db_row \<Rightarrow> rat option" where
  "stored_number col r = (case map_of r col of Some (JNum q) \<Rightarrow> Some q | _ \<Rightarrow> None)"

definition stored_history :: "db_row \<Rightarrow> HistoryEntry list option" where
  "stored_history r = (case map_of r ''history'' of Some (JHist h) \<Rightarrow> Some h | _ \<Rightarrow> None)"

definition ledger_amount :: "db_row \<Rightarrow> rat" where
  "ledger_amount r = (case stored_number ''amount'' r of None \<Rightarrow> 0 | Some q \<Rightarrow> q)"

definition ledger_total :: "RemoteStore \<Rightarrow> string \<Rightarrow> rat" where
  "ledger_total rs i =
     sum_list (map ledger_amount (filter (row_matches ''order_id'' i) (OrderPayments rs)))"

definition order_row :: "RemoteStore \<Rightarrow> string \<Rightarrow> db_row option" where
  "order_row rs i = find (row_matches ''id'' i) (Orders rs)"

definition amount_paid_of :: "RemoteStore \<Rightarrow> string \<Rightarrow> rat option" where
  "amount_paid_of rs i =
     (case order_row rs i of None \<Rightarrow> None | Some r \<Rightarrow> stored_number ''amount_paid'' r)"

text \<open>
  The card of an order opens the payment dialog on that order
  (\<^verbatim>\<open>onUpdatePayment={(o) => { setSelectedOrder(o); setIsPaymentModalOpen(true); }}\<close>): the
  selection is the order as the card shows it, which is the page's copy of it.
\<close>

definition onUpdatePayment :: "Order \<Rightarrow> AppState \<Rightarrow> AppState" where
  "onUpdatePayment clicked st =
     st\<lparr> selectedOrder := Some clicked, isPaymentModalOpen := True \<rparr>"

text \<open>
  A run of payment registrations: each call is the order on the card that was clicked, the
  details confirmed in the dialog, and the outcomes of the two remote calls.
\<close>

fun registerPayments ::
  "Env \<Rightarrow> (Order \<times> PaymentDetails \<times> remote_result \<times> remote_result) list \<Rightarrow> AppState
     \<Rightarrow> AppState" where
  "registerPayments env [] st = st"
| "registerPayments env ((clicked, details, payRes, orderRes) # rest) st =
     registerPayments env rest
       (handlePaymentConfirm env payRes orderRes (oid clicked) details
          (onUpdatePayment clicked st))"

section \<open>Debounced search\<close>

text \<open>
  \<^verbatim>\<open>externalSearchTerm.trim()\<close> removes, at both ends, the code units that ECMAScript
  counts as white space or as line terminators.
\<close>

definition js_whitespace :: "16 word \<Rightarrow> bool" where
  "js_whitespace c =
     (c \<in> set [0x0009, 0x000A, 0x000B, 0x000C, 0x000D, 0x0020, 0x00A0, 0x1680,
                0x2000, 0x2001, 0x2002, 0x2003, 0x2004, 0x2005, 0x2006, 0x2007, 0x2008,
                0x2009, 0x200A, 0x2028, 0x2029, 0x202F, 0x205F, 0x3000, 0xFEFF])"

definition trim :: "js_string \<Rightarrow> js_string" where
  "trim s = rev (dropWhile js_whitespace (rev (dropWhile js_whitespace s)))"

text \<open>
  \<^verbatim>\<open>clearTimeout(id)\<close> takes the timer with this id, if it is still there, out of the
  timers of the browser. \<^verbatim>\<open>setTimeout(callback, 600)\<close> at time \<open>t\<close> adds a timer due at
  \<open>t + 600\<close> under a fresh id, which it returns.
\<close>

definition clearTimeout :: "nat \<Rightarrow> AppState \<Rightarrow> AppState" where
  "clearTimeout i st = st\<lparr> timers := filter (\<lambda>x. timerId x \<noteq> i) (timers st) \<rparr>"

definition setTimeout :: "nat \<Rightarrow> js_string \<Rightarrow> AppState \<Rightarrow> nat \<times> AppState" where
  "setTimeout t term st =
     (nextTimerId st,
      st\<lparr> timers := timers st @
              [\<lparr> timerId = nextTimerId st, due = t + 600, captured = term,
                 owner = pageInstance st \<rparr>],
          nextTimerId := Suc (nextTimerId st) \<rparr>)"

text \<open>
  The body of the search effect, run at time \<open>t\<close> with the value of
  \<^verbatim>\<open>externalSearchTerm\<close>. For a term that is not \<^verbatim>\<open>undefined\<close> it clears the timer whose id
  the ref holds, if it holds one (\<^verbatim>\<open>if (searchTimeoutRef.current)\<close>: an id that is not 0;
  the ids of the browser are positive); then, for a term that is not blank, it sets
  \<^verbatim>\<open>isSearching\<close>, arms a new timer and keeps its id in the ref; for a blank term it resets
  the results. The ref is written nowhere else.
\<close>

definition searchEffect :: "nat \<Rightarrow> js_string option \<Rightarrow> AppState \<Rightarrow> AppState" where
  "searchEffect t externalSearchTerm st =
     (case externalSearchTerm of
        None \<Rightarrow> st
      | Some term \<Rightarrow>
          (let st1 = (case searchTimeoutRef st of
                        None \<Rightarrow> st
                      | Some i \<Rightarrow> (if i \<noteq> 0 then clearTimeout i st else st))
           in if trim term \<noteq> []
              then (let st2 = st1\<lparr> isSearching := True \<rparr>
                    in (snd (setTimeout t term st2))
                         \<lparr> searchTimeoutRef := Some (fst (setTimeout t term st2)) \<rparr>)
              else st1\<lparr> searchResults := None, isSearching := False \<rparr>))"

text \<open>
  Time passing up to \<open>t\<close>: every timer that is due runs its callback, in the order the
  timers were armed, and is gone. The callback calls \<^verbatim>\<open>searchOrders(term)\<close> and awaits
  the reply; the call is recorded with the time it is made at. A timer fires whether or
  not the page that armed it is still mounted: the effect has no cleanup.
\<close>

definition call_of :: "Timer \<Rightarrow> SearchCall" where
  "call_of x = \<lparr> issuedAt = due x, query = captured x, awaitedBy = owner x \<rparr>"

definition fire_due :: "nat \<Rightarrow> AppState \<Rightarrow> AppState" where
  "fire_due t st =
     st\<lparr> timers := filter (\<lambda>x. \<not> due x \<le> t) (timers st),
         searchCalls := searchCalls st @ map call_of (filter (\<lambda>x. due x \<le> t) (timers st)) \<rparr>"

text \<open>
  The page is shown only in the orders view
  (\<^verbatim>\<open>{view === 'orders' && (<OrdersPage ... />)}\<close>). Leaving the view unmounts it; coming
  back mounts a new instance, whose state cells and ref start from their initial values
  and whose effect runs with the term of that moment.
\<close>

definition unmount :: "AppState \<Rightarrow> AppState" where
  "unmount st = st\<lparr> mounted := False \<rparr>"

definition mount :: "nat \<Rightarrow> js_string option \<Rightarrow> AppState \<Rightarrow> AppState" where
  "mount t externalSearchTerm st =
     searchEffect t externalSearchTerm
       (st\<lparr> mounted := True, pageInstance := Suc (pageInstance st),
            searchResults := None, isSearching := False, searchTimeoutRef := None,
            selectedOrder := None, isFormModalOpen := False, isStatusModalOpen := False,
            isPaymentModalOpen := False, isNotificationModalOpen := False,
            isDeleteModalOpen := False, isSaving := False \<rparr>)"

text \<open>
  What happens to the search state, each event with its time: \<^verbatim>\<open>externalSearchTerm\<close>
  changes and the effect of the mounted page runs; the reply to the \<open>k\<close>-th call of
  \<^verbatim>\<open>searchOrders\<close> arrives and the rest of the timer callback runs
  (\<^verbatim>\<open>setSearchResults(results); setIsSearching(false)\<close>, which sets the state of the
  instance that armed the timer and so has no effect once that instance is gone); that
  call fails, and the rest of the callback does not run; the page is unmounted; the page is
  mounted.
\<close>

datatype event =
    TermChanged "js_string option"
  | Reply nat "Order list"
  | ReplyFailed nat
  | Unmounted
  | Mounted "js_string option"

definition reply_is_live :: "nat \<Rightarrow> AppState \<Rightarrow> bool" where
  "reply_is_live k st =
     (k < length (searchCalls st) \<and> mounted st \<and> awaitedBy (searchCalls st ! k) = pageInstance st)"

definition step :: "nat \<times> event \<Rightarrow> AppState \<Rightarrow> AppState" where
  "step te st =
     (let st1 = fire_due (fst te) st
      in case snd te of
           TermChanged term \<Rightarrow> (if mounted st1 then searchEffect (fst te) term st1 else st1)
         | Reply k results \<Rightarrow>
             (if reply_is_live k st1
              then st1\<lparr> searchResults := Some results, isSearching := False \<rparr>
              else st1)
         | ReplyFailed k \<Rightarrow> st1
         | Unmounted \<Rightarrow> unmount st1
         | Mounted term \<Rightarrow> mount (fst te) term st1)"

definition run :: "(nat \<times> event) list \<Rightarrow> AppState \<Rightarrow> AppState" where
  "run evs st = fold step evs st"

text \<open>
  Terms typed one after the other, each less than 600 ms after the one before.
\<close>

fun within_window :: "(nat \<times> js_string) list \<Rightarrow> bool" where
  "within_window [] = True"
| "within_window [k] = True"
| "within_window (k # k' # ks) =
     (fst k \<le> fst k' \<and> fst k' < fst k + 600 \<and> within_window (k' # ks))"

definition keystrokes :: "(nat \<times> js_string) list \<Rightarrow> (nat \<times> event) list" where
  "keystrokes ks = map (\<lambda>k. (fst k, TermChanged (Some (snd k)))) ks"

section \<open>The displayed list\<close>

text \<open>
  The comparator of \<^verbatim>\<open>filteredOrders\<close>. \<open>localeCompare\<close> stands for
  \<^verbatim>\<open>x.localeCompare(y, undefined, {numeric: true, sensitivity: 'base'})\<close>, the numeric
  collation of the platform, which is taken as a parameter.
\<close>

definition order_compare :: "(string \<Rightarrow> string \<Rightarrow> int) \<Rightarrow> Order \<Rightarrow> Order \<Rightarrow> int" where
  "order_compare localeCompare a b =
     (let aIsCompleted = (status a = COMPLETED);
          bIsCompleted = (status b = COMPLETED)
      in if aIsCompleted \<and> \<not> bIsCompleted then 1
         else if \<not> aIsCompleted \<and> bIsCompleted then - 1
         else localeCompare (localOrderId b) (localOrderId a))"

text \<open>
  \<^verbatim>\<open>Array.prototype.sort\<close> with a comparator is the stable sort of the language: \<open>x\<close> is
  put before \<open>y\<close> when the comparator is negative, and the two keep their order when it is
  zero. It is computed here by stable insertion.
\<close>

fun insert_sorted :: "('a \<Rightarrow> 'a \<Rightarrow> int) \<Rightarrow> 'a \<Rightarrow> 'a list \<Rightarrow> 'a list" where
  "insert_sorted cmp x [] = [x]"
| "insert_sorted cmp x (y # ys) =
     (if cmp x y \<le> 0 then x # y # ys else y # insert_sorted cmp x ys)"

fun js_sort :: "('a \<Rightarrow> 'a \<Rightarrow> int) \<Rightarrow> 'a list \<Rightarrow> 'a list" where
  "js_sort cmp [] = []"
| "js_sort cmp (x # xs) = insert_sorted cmp x (js_sort cmp xs)"

text \<open>
  The \<^verbatim>\<open>switch\<close> on the smart filter; \<open>today\<close> is
  \<^verbatim>\<open>new Date().toISOString().split('T')[0]\<close>, and dates are compared as strings.
\<close>

definition smart_filter :: "string \<Rightarrow> string \<Rightarrow> Order \<Rightarrow> bool" where
  "smart_filter today externalSmartFilter x =
     (if externalSmartFilter = ''ready_pickup''
        then status x = STORED \<or> status x = ARRIVED_AT_OFFICE
      else if externalSmartFilter = ''late''
        then (status x = ORDERED \<or> status x = SHIPPED_FROM_STORE) \<and>
             truthy_string (expectedArrivalDate x) \<and> the (expectedArrivalDate x) < today
      else if externalSmartFilter = ''needs_tracking''
        then status x = ORDERED \<and> \<not> truthy_string (trackingNumber x)
      else if externalSmartFilter = ''pending_invoice''
        then status x = ORDERED \<and> \<not> isInvoicePrinted x
      else status x = externalSmartFilter)"

definition filteredOrders ::
  "(string \<Rightarrow> string \<Rightarrow> int) \<Rightarrow> string \<Rightarrow> js_string option \<Rightarrow> string \<Rightarrow> string \<Rightarrow> AppState
     \<Rightarrow> Order list" where
  "filteredOrders localeCompare today externalSearchTerm externalSmartFilter externalStoreFilter st =
     (let result = (case searchResults st of None \<Rightarrow> orders st | Some found \<Rightarrow> found);
          result1 = (if \<not> truthy_string externalSearchTerm \<and> externalSmartFilter \<noteq> ''all''
                     then filter (smart_filter today externalSmartFilter) result
                     else result);
          result2 = (if externalStoreFilter \<noteq> ''all''
                     then filter (\<lambda>x. storeId x = externalStoreFilter) result1
                     else result1)
      in js_sort (order_compare localeCompare) result2)"

section \<open>Specification-side definitions and concrete inputs\<close>

text \<open>
  The predecessor mapping as the specification words it (section 4.1):
  COMPLETED to OUT_FOR_DELIVERY to STORED to ARRIVED_AT_OFFICE to SHIPPED_FROM_STORE to
  ORDERED to NEW.
\<close>

definition spec_predecessor :: "(OrderStatus \<times> OrderStatus) list" where
  "spec_predecessor =
     [(COMPLETED, OUT_FOR_DELIVERY), (OUT_FOR_DELIVERY, STORED), (STORED, ARRIVED_AT_OFFICE),
      (ARRIVED_AT_OFFICE, SHIPPED_FROM_STORE), (SHIPPED_FROM_STORE, ORDERED), (ORDERED, NEW)]"

text \<open>The history entry a revert to \<open>p\<close> writes.\<close>

definition revert_entry :: "Env \<Rightarrow> OrderStatus \<Rightarrow> HistoryEntry" where
  "revert_entry env p =
     \<lparr> timestamp = now env, activity = ''Status reverted to '' @ p, user = username env \<rparr>"

subsection \<open>Concrete inputs\<close>

text \<open>
  An environment (its \<open>num_text\<close> prints the amounts used below), two orders, a store
  holding their rows, and a page showing them.
\<close>

definition env0 :: Env where
  "env0 = \<lparr> username = Some ''amina'', email = Some ''amina@example.org'',
            now = ''2025-03-01T10:00:00.000Z'',
            num_text = (\<lambda>q. if q = 300 then ''300'' else if q = 450 then ''450''
                        else if q = 3602879701896397 / 36028797018963968 then ''0.1''
                        else if q = 3602879701896397 / 18014398509481984 then ''0.2''
                        else ''0'') \<rparr>"

definition entry0 :: HistoryEntry where
  "entry0 = \<lparr> timestamp = ''2025-02-01T09:00:00.000Z'', activity = ''Created Order'',
               user = Some ''amina'' \<rparr>"

definition entry1 :: HistoryEntry where
  "entry1 = \<lparr> timestamp = ''2025-02-02T09:00:00.000Z'', activity = ''Status changed to COMPLETED'',
               user = Some ''amina'' \<rparr>"

definition order0 :: Order where
  "order0 = \<lparr> oid = ''a-1'', localOrderId = ''FCD-1'', clientId = ''c1'', storeId = ''s1'',
     status = COMPLETED, trackingNumber = None, expectedArrivalDate = None,
     isInvoicePrinted = False, whatsappNotificationSent = False, amountPaid = Some 0,
     transactionFee = None, localDeliveryCost = None, history = Some [entry0, entry1] \<rparr>"

definition order1 :: Order where
  "order1 = \<lparr> oid = ''b-2'', localOrderId = ''FCD-2'', clientId = ''c2'', storeId = ''s1'',
     status = NEW, trackingNumber = None, expectedArrivalDate = None,
     isInvoicePrinted = False, whatsappNotificationSent = False, amountPaid = Some 0,
     transactionFee = None, localDeliveryCost = None, history = Some [entry0] \<rparr>"

definition store0 :: RemoteStore where
  "store0 = \<lparr> Orders =
       [[(''id'', JStr ''a-1''), (''local_order_id'', JStr ''FCD-1''), (''status'', JStr COMPLETED),
         (''amount_paid'', JNum 0), (''history'', JHist [entry0, entry1])],
        [(''id'', JStr ''b-2''), (''local_order_id'', JStr ''FCD-2''), (''status'', JStr NEW),
         (''amount_paid'', JNum 0), (''history'', JHist [entry0])]],
     OrderPayments = [], requests = [] \<rparr>"

definition state0 :: AppState where
  "state0 = \<lparr> supabase = Some store0, orders = [order0, order1], searchResults = None,
     selectedOrder = Some order0, isSearching = False, searchTimeoutRef = None,
     mounted = True, pageInstance = 1, timers = [], nextTimerId = 1, searchCalls = [],
     isFormModalOpen = False, isStatusModalOpen = False, isPaymentModalOpen = True,
     isNotificationModalOpen = False, isDeleteModalOpen = False, isSaving = False,
     toasts = [] \<rparr>"

text \<open>
  A page that shows a search result: the order \<open>order0\<close> is displayed from
  \<^verbatim>\<open>searchResults\<close> and is not among the loaded \<^verbatim>\<open>orders\<close>.
\<close>

definition state1 :: AppState where
  "state1 = state0\<lparr> orders := [order1], searchResults := Some [order0] \<rparr>"

text \<open>A status change whose target is not one of the seven literals.\<close>

definition payload0 :: OrderPartial where
  "payload0 = \<lparr> status_opt = Some ''TELEPORTED'', globalOrderId_opt = None,
     trackingNumber_opt = None, weight_opt = None, shippingCost_opt = None,
     storageLocation_opt = None, arrivalDateAtOffice_opt = None, storageDate_opt = None,
     withdrawalDate_opt = None, orderImages_opt = None, trackingImages_opt = None,
     weighingImages_opt = None, hubArrivalImages_opt = None, originCenter_opt = None,
     shippingType_opt = None, localDeliveryCost_opt = None \<rparr>"

definition details0 :: PaymentDetails where
  "details0 = \<lparr> amountPaid_d = 300, paymentMethod_d = ''cash'', receiptImages_d = [],
                 localDeliveryCost_d = 0, transactionFee_d = 5 \<rparr>"

text \<open>Reading the store behind a state: a column of the \<open>i\<close>-th row, and the calls made.\<close>

definition stored_status :: "AppState \<Rightarrow> nat \<Rightarrow> jval option" where
  "stored_status st i =
     (case supabase st of None \<Rightarrow> None | Some rs \<Rightarrow> map_of (Orders rs ! i) ''status'')"

definition stored_history_at :: "AppState \<Rightarrow> nat \<Rightarrow> HistoryEntry list option" where
  "stored_history_at st i =
     (case supabase st of None \<Rightarrow> None | Some rs \<Rightarrow> stored_history (Orders rs ! i))"

definition requests_of :: "AppState \<Rightarrow> request list" where
  "requests_of st = (case supabase st of None \<Rightarrow> [] | Some rs \<Rightarrow> requests rs)"

text \<open>
  Two searches whose replies arrive in the opposite order: the term \<^verbatim>\<open>a\<close> is typed at 0 ms
  and its query goes out at 600 ms; \<^verbatim>\<open>ab\<close> is typed at 700 ms and its query goes out at
  1300 ms; the reply to the second query arrives at 1400 ms, the reply to the first at
  1500 ms.
\<close>

definition race :: "(nat \<times> event) list" where
  "race = [(0, TermChanged (Some (ascii ''a''))), (700, TermChanged (Some (ascii ''ab''))),
           (1400, Reply 1 [order1]), (1500, Reply 0 [order0])]"

text \<open>
  A search that is cleared while its query is in flight: \<^verbatim>\<open>a\<close> is typed at 0 ms, its query
  goes out at 600 ms, the field is emptied at 700 ms, and the reply arrives at 1500 ms.
\<close>

definition cleared :: "(nat \<times> event) list" where
  "cleared = [(0, TermChanged (Some (ascii ''a''))), (700, TermChanged (Some [])),
              (1500, Reply 0 [order0])]"

text \<open>
  The page is quiet at time \<open>t\<close>: it is mounted, no query has been issued, and the browser
  holds no timer, or holds only the one whose id is in the ref, due after \<open>t\<close>.
\<close>

definition quiet :: "nat \<Rightarrow> AppState \<Rightarrow> bool" where
  "quiet t st =
     (mounted st \<and> searchCalls st = [] \<and> 0 < nextTimerId st \<and>
      (case timers st of
         [] \<Rightarrow> True
       | x # others \<Rightarrow> others = [] \<and> searchTimeoutRef st = Some (timerId x) \<and> timerId x \<noteq> 0 \<and>
                     t < due x))"

text \<open>
  Three terms typed within the window of each other; two terms of which the last is a
  blank; and a visit to another view between two terms: \<^verbatim>\<open>a\<close> is typed at 0 ms, the view
  is left at 100 ms (which empties the term) and entered again at 200 ms, and \<^verbatim>\<open>b\<close> is
  typed at 300 ms.
\<close>

definition typed :: "(nat \<times> js_string) list" where
  "typed = [(0, ascii ''a''), (200, ascii ''ab''), (650, ascii ''abc'')]"

definition typed_blank :: "(nat \<times> js_string) list" where
  "typed_blank = [(0, ascii ''a''), (200, ascii '' '')]"

definition visit :: "(nat \<times> event) list" where
  "visit = [(0, TermChanged (Some (ascii ''a''))), (100, Unmounted), (200, Mounted (Some [])),
            (300, TermChanged (Some (ascii ''b'')))]"

text \<open>The queries issued, each with its time.\<close>

definition queries :: "AppState \<Rightarrow> (nat \<times> js_string) list" where
  "queries st = map (\<lambda>c. (issuedAt c, query c)) (searchCalls st)"

text \<open>
  \<open>x\<close> may stand before \<open>y\<close> in a list sorted with the comparator \<open>cmp\<close>.
\<close>

definition goes_before :: "('a \<Rightarrow> 'a \<Rightarrow> int) \<Rightarrow> 'a \<Rightarrow> 'a \<Rightarrow> bool" where
  "goes_before cmp a b = (cmp a b \<le> 0)"

text \<open>
  The list \<^verbatim>\<open>filteredOrders\<close> sorts: the search results or the orders, after the two
  filters.
\<close>

definition filtered_input ::
  "string \<Rightarrow> js_string option \<Rightarrow> string \<Rightarrow> string \<Rightarrow> AppState \<Rightarrow> Order list" where
  "filtered_input today externalSearchTerm externalSmartFilter externalStoreFilter st =
     (let result = (case searchResults st of None \<Rightarrow> orders st | Some found \<Rightarrow> found);
          result1 = (if \<not> truthy_string externalSearchTerm \<and> externalSmartFilter \<noteq> ''all''
                     then filter (smart_filter today externalSmartFilter) result
                     else result)
      in if externalStoreFilter \<noteq> ''all''
         then filter (\<lambda>x. storeId x = externalStoreFilter) result1
         else result1)"

text \<open>
  A comparator of strings for the concrete inputs (shorter first), a third order, and a
  page that holds the three.
\<close>

definition by_length :: "string \<Rightarrow> string \<Rightarrow> int" where
  "by_length a b = int (length a) - int (length b)"

definition order2 :: Order where
  "order2 = order1\<lparr> oid := ''c-3'', localOrderId := ''FCD-10'', status := STORED \<rparr>"

definition state2 :: AppState where
  "state2 = state0\<lparr> orders := [order0, order1, order2] \<rparr>"

text \<open>
  The ledger total and the stored amount paid of an order, read through a state.
\<close>

definition ledger_total_in :: "AppState \<Rightarrow> string \<Rightarrow> rat" where
  "ledger_total_in st i = (case supabase st of None \<Rightarrow> 0 | Some rs \<Rightarrow> ledger_total rs i)"

definition amount_paid_in :: "AppState \<Rightarrow> string \<Rightarrow> rat option" where
  "amount_paid_in st i = (case supabase st of None \<Rightarrow> None | Some rs \<Rightarrow> amount_paid_of rs i)"

text \<open>
  A run of payments on the order \<open>i\<close> is sound from the state \<open>st\<close> when every call is
  made on a card of \<open>i\<close>, and every call whose ledger insert succeeds also has its order
  update succeed, is made on a card that shows the amount paid as it is stored at that
  moment, and adds an amount whose sum with it is a double (so that the addition of the
  platform is exact).
\<close>

fun sound_run ::
  "Env \<Rightarrow> string \<Rightarrow> (Order \<times> PaymentDetails \<times> remote_result \<times> remote_result) list \<Rightarrow> AppState
     \<Rightarrow> bool" where
  "sound_run env i [] st = True"
| "sound_run env i ((clicked, details, payRes, orderRes) # rest) st =
     (oid clicked = i \<and>
      (case payRes of
         Failed e \<Rightarrow> True
       | Ok \<Rightarrow> orderRes = Ok \<and> amountPaid clicked = amount_paid_in st i \<and>
               js_add (number_or_zero (amountPaid clicked)) (amountPaid_d details) =
                 number_or_zero (amountPaid clicked) + amountPaid_d details) \<and>
      sound_run env i rest
        (handlePaymentConfirm env payRes orderRes (oid clicked) details
           (onUpdatePayment clicked st)))"

text \<open>
  A second payment; the order \<open>order0\<close> as a card shows it after a first payment of 300
  has been patched into the page; and the doubles nearest to 0.1 and 0.2, a payment of
  each, and the order \<open>order0\<close> as a card shows it once the first of them is paid.
\<close>

definition details1 :: PaymentDetails where
  "details1 = details0\<lparr> amountPaid_d := 450, transactionFee_d := 0 \<rparr>"

definition order0_paid :: Order where
  "order0_paid = order0\<lparr> amountPaid := Some 300 \<rparr>"

definition tenth :: rat where
  "tenth = 3602879701896397 / 36028797018963968"

definition fifth :: rat where
  "fifth = 3602879701896397 / 18014398509481984"

definition order_tenth :: Order where
  "order_tenth = order0\<lparr> amountPaid := Some tenth \<rparr>"

definition details_tenth :: PaymentDetails where
  "details_tenth = details0\<lparr> amountPaid_d := tenth, transactionFee_d := 0 \<rparr>"

definition details_fifth :: PaymentDetails where
  "details_fifth = details0\<lparr> amountPaid_d := fifth, transactionFee_d := 0 \<rparr>"

text \<open>
  A sound run of three calls: a payment of 300, a payment whose ledger insert fails, and a
  payment of 450 made on the card as it shows the order after the first payment.
\<close>

definition sound_calls :: "(Order \<times> PaymentDetails \<times> remote_result \<times> remote_result) list" where
  "sound_calls = [(order0, details0, Ok, Ok), (order0, details1, Failed ''offline'', Ok),
                  (order0_paid, details1, Ok, Ok)]"

text \<open>
  A page whose copy of the order \<open>a-1\<close> has fallen behind the store: it shows no history,
  while the stored history has two entries.
\<close>

definition state_stale :: AppState where
  "state_stale = state0\<lparr> orders := [order0\<lparr> history := Some [] \<rparr>, order1] \<rparr>"

section \<open>Properties\<close>

lemmas OrderStatus_defs =
  NEW_def ORDERED_def SHIPPED_FROM_STORE_def ARRIVED_AT_OFFICE_def STORED_def
  OUT_FOR_DELIVERY_def COMPLETED_def

subsection \<open>Reverting a status\<close>

lemma prevStatus_of_spec:
  "(s, p) \<in> set spec_predecessor \<Longrightarrow> prevStatus_of s = Some p"
  by (auto simp: spec_predecessor_def prevStatus_of_def OrderStatus_defs)

lemma prevStatus_of_NEW: "prevStatus_of NEW = None"
  by (simp add: prevStatus_of_def OrderStatus_defs)

lemma spec_predecessor_dom:
  "set (map fst spec_predecessor) = set OrderStatus_values - {NEW}"
  by (auto simp: spec_predecessor_def OrderStatus_values_def OrderStatus_defs)

lemma map_of_apply_update:
  "map_of (apply_update payload col val r) k =
     (if row_matches col val r then (map_of r ++ map_of payload) k else map_of r k)"
  by (simp add: apply_update_def AList.merge_conv)

lemma handleRevertStatus_Ok:
  assumes "supabase st = Some rs"
    and "find (\<lambda>x. oid x = orderId) (orders st) = Some order"
    and "prevStatus_of (status order) = Some p"
  shows "handleRevertStatus env Ok orderId password st =
           (True, showToast ToastReverted
              (st\<lparr> supabase := Some (update_Orders Ok (revert_payload env order p) ''id'' orderId rs) \<rparr>))"
  using assms by (simp add: handleRevertStatus_def)

lemma handleRevertStatus_None:
  assumes "supabase st = Some rs"
    and "find (\<lambda>x. oid x = orderId) (orders st) = Some order"
    and "prevStatus_of (status order) = None"
  shows "handleRevertStatus env res orderId password st = (False, st)"
  using assms by (simp add: handleRevertStatus_def)

subsection \<open>Evaluation at the concrete inputs\<close>

lemmas fixture_defs = state0_def state1_def store0_def order0_def order1_def env0_def
  entry0_def entry1_def payload0_def

lemmas eval_defs =
  stored_history_at_def stored_status_def requests_of_def stored_history_def
  update_Orders_def apply_update_def row_matches_def showToast_def
  status_dbPayload_def status_history_def if_truthy_def if_defined_def if_array_def
  id_column_def status_or_Updated_def truthy_string_def history_or_empty_def
  revert_payload_def prevStatus_of_def email_or_empty_def auth_signInWithPassword_def
  delete_Orders_def

subsection \<open>History entries\<close>

text \<open>
  Claim C1, evaluated where the code departs from it. (1) The invoice-printed update: in
  \<open>state0\<close> the stored history of the order \<open>a-1\<close> has two entries;
  \<^verbatim>\<open>handleInvoiceSent\<close> succeeds (its success toast is shown) and the stored history and
  the histories held by the page are what they were: no entry is appended. (2) The status
  change: in \<open>state1\<close> the order \<open>a-1\<close> is displayed from the search results and is not in
  \<^verbatim>\<open>orders\<close>; \<^verbatim>\<open>handleUpdateOrderStatus\<close> finds no order, writes
  \<^verbatim>\<open>[...([]), entry]\<close>, and the stored history of two entries is replaced by one entry.
\<close>

theorem C1_history_not_append_only:
  "stored_history_at state0 0 = Some [entry0, entry1] \<and>
   stored_history_at (handleInvoiceSent Ok order0 state0) 0 = Some [entry0, entry1] \<and>
   map history (orders (handleInvoiceSent Ok order0 state0)) = map history (orders state0) \<and>
   toasts (handleInvoiceSent Ok order0 state0) = [ToastInvoiceUpdated] \<and>
   stored_history_at state1 0 = Some [entry0, entry1] \<and>
   filteredOrders (\<lambda>a b. 0) ''2025-03-01'' (Some (ascii ''FCD-1'')) ''all'' ''all'' state1 = [order0] \<and>
   stored_history_at
     (handleUpdateOrderStatus env0 Ok ''a-1'' (payload0\<lparr> status_opt := Some ORDERED \<rparr>) state1) 0 =
     Some [\<lparr> timestamp = now env0, activity = ''Status changed to ORDERED'',
             user = Some ''amina'' \<rparr>]"
proof (intro conjI)
  show "stored_history_at state0 0 = Some [entry0, entry1]"
    by (simp add: fixture_defs eval_defs)
  show "stored_history_at (handleInvoiceSent Ok order0 state0) 0 = Some [entry0, entry1]"
    by (simp add: handleInvoiceSent_def fixture_defs eval_defs)
  show "map history (orders (handleInvoiceSent Ok order0 state0)) = map history (orders state0)"
    by (simp add: handleInvoiceSent_def mark_printed_def fixture_defs eval_defs)
  show "toasts (handleInvoiceSent Ok order0 state0) = [ToastInvoiceUpdated]"
    by (simp add: handleInvoiceSent_def fixture_defs eval_defs)
  show "stored_history_at state1 0 = Some [entry0, entry1]"
    by (simp add: fixture_defs eval_defs)
  show "filteredOrders (\<lambda>a b. 0) ''2025-03-01'' (Some (ascii ''FCD-1'')) ''all'' ''all'' state1 = [order0]"
    by (simp add: filteredOrders_def fixture_defs eval_defs)
  show "stored_history_at
     (handleUpdateOrderStatus env0 Ok ''a-1'' (payload0\<lparr> status_opt := Some ORDERED \<rparr>) state1) 0 =
     Some [\<lparr> timestamp = now env0, activity = ''Status changed to ORDERED'',
             user = Some ''amina'' \<rparr>]"
    by (simp add: handleUpdateOrderStatus_def fixture_defs eval_defs OrderStatus_defs)
qed

subsection \<open>Changing a status\<close>

lemma map_of_status_dbPayload:
  assumes "status_opt payload = Some s" and "s \<noteq> []"
  shows "map_of (status_dbPayload env order payload) ''status'' = Some (JStr s)"
  using assms by (simp add: status_dbPayload_def if_truthy_def)

lemma Orders_update_Ok:
  "Orders (update_Orders Ok payload col val rs) = map (apply_update payload col val) (Orders rs)"
  by (simp add: update_Orders_def)

lemma Orders_update_Failed:
  "Orders (update_Orders (Failed e) payload col val rs) = Orders rs"
  by (simp add: update_Orders_def)

lemma requests_update:
  "requests (update_Orders res payload col val rs) =
     requests rs @ [Update ''Orders'' payload col val]"
  by (simp add: update_Orders_def)

lemma OrderPayments_update:
  "OrderPayments (update_Orders res payload col val rs) = OrderPayments rs"
  by (simp add: update_Orders_def)

text \<open>
  Claim C4 fails at a concrete input: the target \<^verbatim>\<open>TELEPORTED\<close> is none of the seven
  literals, and the status change stores it and shows the success toast.
\<close>

theorem C4_counterexample:
  "''TELEPORTED'' \<notin> set OrderStatus_values \<and>
   status_opt payload0 = Some ''TELEPORTED'' \<and>
   stored_status state0 0 = Some (JStr COMPLETED) \<and>
   stored_status (handleUpdateOrderStatus env0 Ok ''a-1'' payload0 state0) 0 =
     Some (JStr ''TELEPORTED'') \<and>
   toasts (handleUpdateOrderStatus env0 Ok ''a-1'' payload0 state0) = [ToastStatusUpdated]"
proof (intro conjI)
  show "''TELEPORTED'' \<notin> set OrderStatus_values"
    by (simp add: OrderStatus_values_def OrderStatus_defs)
  show "status_opt payload0 = Some ''TELEPORTED''"
    by (simp add: payload0_def)
  show "stored_status state0 0 = Some (JStr COMPLETED)"
    by (simp add: fixture_defs eval_defs)
  show "stored_status (handleUpdateOrderStatus env0 Ok ''a-1'' payload0 state0) 0 =
          Some (JStr ''TELEPORTED'')"
    by (simp add: handleUpdateOrderStatus_def fixture_defs eval_defs)
  show "toasts (handleUpdateOrderStatus env0 Ok ''a-1'' payload0 state0) = [ToastStatusUpdated]"
    by (simp add: handleUpdateOrderStatus_def fixture_defs eval_defs)
qed

text \<open>
  Claim C4 as amended. The status change does not look at which status it is given: with
  the client configured and a target that is not the empty string, a successful remote
  update stores that target in every row the id selects, leaves the other rows as they
  were, and shows the success toast; when the remote update reports an error no row
  changes and the error is shown.
\<close>

theorem C4_status_not_validated:
  assumes sup: "supabase st = Some rs"
    and target: "status_opt payload = Some s" and nonempty: "s \<noteq> []"
  shows "(\<exists>rs'. supabase (handleUpdateOrderStatus env Ok orderId payload st) = Some rs' \<and>
            length (Orders rs') = length (Orders rs) \<and>
            (\<forall>i < length (Orders rs).
               if row_matches (id_column orderId) orderId (Orders rs ! i)
               then map_of (Orders rs' ! i) ''status'' = Some (JStr s)
               else Orders rs' ! i = Orders rs ! i))
       \<and> toasts (handleUpdateOrderStatus env Ok orderId payload st) =
           toasts st @ [ToastStatusUpdated]
       \<and> (\<exists>rs'. supabase (handleUpdateOrderStatus env (Failed e) orderId payload st) = Some rs' \<and>
            Orders rs' = Orders rs)
       \<and> toasts (handleUpdateOrderStatus env (Failed e) orderId payload st) =
           toasts st @ [ToastError e]"
proof (intro conjI)
  let ?order = "find (\<lambda>x. oid x = orderId) (orders st)"
  let ?p = "status_dbPayload env ?order payload"
  let ?rs' = "update_Orders Ok ?p (id_column orderId) orderId rs"
  have "supabase (handleUpdateOrderStatus env Ok orderId payload st) = Some ?rs'"
    using sup by (simp add: handleUpdateOrderStatus_def showToast_def)
  moreover have "length (Orders ?rs') = length (Orders rs)"
    by (simp add: Orders_update_Ok)
  moreover have "\<forall>i < length (Orders rs).
               if row_matches (id_column orderId) orderId (Orders rs ! i)
               then map_of (Orders ?rs' ! i) ''status'' = Some (JStr s)
               else Orders ?rs' ! i = Orders rs ! i"
    using map_of_status_dbPayload [OF target nonempty, of env ?order]
    by (simp add: Orders_update_Ok map_of_apply_update map_add_def) (simp add: apply_update_def)
  ultimately show "\<exists>rs'. supabase (handleUpdateOrderStatus env Ok orderId payload st) = Some rs' \<and>
            length (Orders rs') = length (Orders rs) \<and>
            (\<forall>i < length (Orders rs).
               if row_matches (id_column orderId) orderId (Orders rs ! i)
               then map_of (Orders rs' ! i) ''status'' = Some (JStr s)
               else Orders rs' ! i = Orders rs ! i)"
    by blast
  show "toasts (handleUpdateOrderStatus env Ok orderId payload st) =
           toasts st @ [ToastStatusUpdated]"
    using sup by (simp add: handleUpdateOrderStatus_def showToast_def)
  show "\<exists>rs'. supabase (handleUpdateOrderStatus env (Failed e) orderId payload st) = Some rs' \<and>
            Orders rs' = Orders rs"
    using sup by (simp add: handleUpdateOrderStatus_def showToast_def Orders_update_Failed)
  show "toasts (handleUpdateOrderStatus env (Failed e) orderId payload st) =
           toasts st @ [ToastError e]"
    using sup by (simp add: handleUpdateOrderStatus_def showToast_def)
qed

theorem C4_status_not_validated_witness:
  "supabase state0 = Some store0 \<and> status_opt payload0 = Some ''TELEPORTED'' \<and>
   ''TELEPORTED'' \<noteq> [] \<and>
   0 < length (Orders store0) \<and> row_matches (id_column ''a-1'') ''a-1'' (Orders store0 ! 0) \<and>
   toasts (handleUpdateOrderStatus env0 Ok ''a-1'' payload0 state0) =
     toasts state0 @ [ToastStatusUpdated] \<and>
   toasts (handleUpdateOrderStatus env0 (Failed ''offline'') ''a-1'' payload0 state0) =
     toasts state0 @ [ToastError ''offline'']"
proof -
  have h1: "supabase state0 = Some store0"
    by (simp add: state0_def)
  have h2: "status_opt payload0 = Some ''TELEPORTED''"
    by (simp add: payload0_def)
  have h3: "''TELEPORTED'' \<noteq> []"
    by simp
  have h4: "0 < length (Orders store0) \<and>
            row_matches (id_column ''a-1'') ''a-1'' (Orders store0 ! 0)"
    by (simp add: store0_def row_matches_def id_column_def)
  from C4_status_not_validated [OF h1 h2 h3, of env0 "''a-1''" "''offline''"] h1 h2 h3 h4
  show ?thesis by blast
qed

subsection \<open>Registering a payment\<close>

lemma handlePaymentConfirm_pay_failed:
  assumes "supabase st = Some rs" and "selectedOrder st = Some sel"
  shows "handlePaymentConfirm env (Failed e) orderRes orderId details st =
           showToast (ToastError e)
             (st\<lparr> supabase := Some (insert_OrderPayments (Failed e) (payment_row env sel details) rs) \<rparr>)"
  using assms by (simp add: handlePaymentConfirm_def)

lemma handlePaymentConfirm_pay_ok:
  assumes "supabase st = Some rs" and "selectedOrder st = Some sel"
  shows "supabase (handlePaymentConfirm env Ok orderRes orderId details st) =
           Some (update_Orders orderRes (payment_order_update env sel details) ''id'' (oid sel)
                   (insert_OrderPayments Ok (payment_row env sel details) rs))"
  using assms by (cases orderRes) (simp_all add: handlePaymentConfirm_def showToast_def)

text \<open>
  Claim C8. With the client configured and an order selected: when the ledger insert
  succeeds, the calls made are the insert into \<^verbatim>\<open>OrderPayments\<close> and then the update of
  \<^verbatim>\<open>Orders\<close>, in this order; when the ledger insert fails, the only call made is the
  insert, no row of either table changes (so amount paid, transaction fee, delivery cost
  and history of the order stay as stored), the lists and the selection of the page are
  unchanged, and the error is shown as a toast.
\<close>

theorem C8_payment_two_writes:
  assumes sup: "supabase st = Some rs" and sel: "selectedOrder st = Some sel"
  shows "(\<exists>rs'. supabase (handlePaymentConfirm env Ok orderRes orderId details st) = Some rs' \<and>
            requests rs' = requests rs @
              [Insert ''OrderPayments'' (payment_row env sel details),
               Update ''Orders'' (payment_order_update env sel details) ''id'' (oid sel)])
       \<and> (\<exists>rs'. supabase (handlePaymentConfirm env (Failed e) orderRes orderId details st) = Some rs' \<and>
            requests rs' = requests rs @ [Insert ''OrderPayments'' (payment_row env sel details)] \<and>
            Orders rs' = Orders rs \<and> OrderPayments rs' = OrderPayments rs)
       \<and> toasts (handlePaymentConfirm env (Failed e) orderRes orderId details st) =
           toasts st @ [ToastError e]
       \<and> orders (handlePaymentConfirm env (Failed e) orderRes orderId details st) = orders st
       \<and> searchResults (handlePaymentConfirm env (Failed e) orderRes orderId details st) =
           searchResults st
       \<and> selectedOrder (handlePaymentConfirm env (Failed e) orderRes orderId details st) =
           selectedOrder st"
proof (intro conjI)
  show "\<exists>rs'. supabase (handlePaymentConfirm env Ok orderRes orderId details st) = Some rs' \<and>
            requests rs' = requests rs @
              [Insert ''OrderPayments'' (payment_row env sel details),
               Update ''Orders'' (payment_order_update env sel details) ''id'' (oid sel)]"
    by (simp add: handlePaymentConfirm_pay_ok [OF sup sel] requests_update
          insert_OrderPayments_def)
  note eq = handlePaymentConfirm_pay_failed [OF sup sel, of env e orderRes orderId details]
  show "\<exists>rs'. supabase (handlePaymentConfirm env (Failed e) orderRes orderId details st) = Some rs' \<and>
            requests rs' = requests rs @ [Insert ''OrderPayments'' (payment_row env sel details)] \<and>
            Orders rs' = Orders rs \<and> OrderPayments rs' = OrderPayments rs"
    by (simp add: eq showToast_def insert_OrderPayments_def)
  show "toasts (handlePaymentConfirm env (Failed e) orderRes orderId details st) =
           toasts st @ [ToastError e]"
    by (simp add: eq showToast_def)
  show "orders (handlePaymentConfirm env (Failed e) orderRes orderId details st) = orders st"
    by (simp add: eq showToast_def)
  show "searchResults (handlePaymentConfirm env (Failed e) orderRes orderId details st) =
           searchResults st"
    by (simp add: eq showToast_def)
  show "selectedOrder (handlePaymentConfirm env (Failed e) orderRes orderId details st) =
           selectedOrder st"
    by (simp add: eq showToast_def)
qed

theorem C8_payment_two_writes_witness:
  "supabase state0 = Some store0 \<and> selectedOrder state0 = Some order0 \<and>
   toasts (handlePaymentConfirm env0 (Failed ''offline'') Ok ''a-1'' details0 state0) =
     [ToastError ''offline''] \<and>
   orders (handlePaymentConfirm env0 (Failed ''offline'') Ok ''a-1'' details0 state0) =
     [order0, order1]"
proof -
  have h1: "supabase state0 = Some store0"
    by (simp add: state0_def)
  have h2: "selectedOrder state0 = Some order0"
    by (simp add: state0_def)
  have h3: "toasts state0 = [] \<and> orders state0 = [order0, order1]"
    by (simp add: state0_def)
  from C8_payment_two_writes [OF h1 h2, of env0 Ok "''a-1''" details0 "''offline''"] h1 h2 h3
  show ?thesis by simp
qed

subsection \<open>Reverting with a credential\<close>

text \<open>
  Claim C9, evaluated where the code departs from it: a revert out of COMPLETED given a
  password behaves as the revert given none. It succeeds, the stored status becomes
  OUT_FOR_DELIVERY, and the one call made is the update: the identity collaborator is
  never asked. The deletion of an order, by contrast, first signs in with the password, and
  with a failed check the sign-in is the only call it makes.
\<close>

theorem C9_password_not_verified:
  "handleRevertStatus env0 Ok ''a-1'' (Some ''not the password'') state0 =
     handleRevertStatus env0 Ok ''a-1'' None state0 \<and>
   fst (handleRevertStatus env0 Ok ''a-1'' (Some ''not the password'') state0) \<and>
   stored_status state0 0 = Some (JStr COMPLETED) \<and>
   stored_status (snd (handleRevertStatus env0 Ok ''a-1'' (Some ''not the password'') state0)) 0 =
     Some (JStr OUT_FOR_DELIVERY) \<and>
   requests_of (snd (handleRevertStatus env0 Ok ''a-1'' (Some ''not the password'') state0)) =
     [Update ''Orders'' (revert_payload env0 order0 OUT_FOR_DELIVERY) ''id'' ''a-1''] \<and>
   requests_of (handleDeleteOrder env0 (Returned (Failed ''Invalid login credentials'')) Ok
                  ''not the password'' state0) =
     [SignIn ''amina@example.org'' ''not the password'']"
proof (intro conjI)
  show "handleRevertStatus env0 Ok ''a-1'' (Some ''not the password'') state0 =
     handleRevertStatus env0 Ok ''a-1'' None state0"
    by (simp add: handleRevertStatus_def)
  show "fst (handleRevertStatus env0 Ok ''a-1'' (Some ''not the password'') state0)"
    by (simp add: handleRevertStatus_def fixture_defs eval_defs OrderStatus_defs)
  show "stored_status state0 0 = Some (JStr COMPLETED)"
    by (simp add: fixture_defs eval_defs)
  show "stored_status (snd (handleRevertStatus env0 Ok ''a-1'' (Some ''not the password'') state0)) 0 =
     Some (JStr OUT_FOR_DELIVERY)"
    by (simp add: handleRevertStatus_def fixture_defs eval_defs OrderStatus_defs)
  show "requests_of (snd (handleRevertStatus env0 Ok ''a-1'' (Some ''not the password'') state0)) =
     [Update ''Orders'' (revert_payload env0 order0 OUT_FOR_DELIVERY) ''id'' ''a-1'']"
    by (simp add: handleRevertStatus_def fixture_defs eval_defs OrderStatus_defs)
  show "requests_of (handleDeleteOrder env0 (Returned (Failed ''Invalid login credentials'')) Ok
                  ''not the password'' state0) =
     [SignIn ''amina@example.org'' ''not the password'']"
    by (simp add: handleDeleteOrder_def fixture_defs eval_defs)
qed


subsection \<open>Marking an invoice as sent\<close>

lemma handleInvoiceSent_Ok:
  assumes "supabase st = Some rs"
  shows "orders (handleInvoiceSent Ok order st) = map (mark_printed order) (orders st)"
    and "searchResults (handleInvoiceSent Ok order st) =
           map_option (map (mark_printed order)) (searchResults st)"
  using assms
  by (simp_all add: handleInvoiceSent_def showToast_def split: option.splits)

text \<open>
  Claim C10. With the client configured and a successful remote update,
  \<^verbatim>\<open>handleInvoiceSent\<close> keeps the length of \<^verbatim>\<open>orders\<close>; an order with the id of the
  target becomes itself with \<^verbatim>\<open>isInvoicePrinted\<close> set (every other field as before), and
  every other order is left as it is; the same holds of the search results when there are
  some, and absent search results stay absent.
\<close>

theorem C10_invoice_frame:
  assumes sup: "supabase st = Some rs"
  shows "length (orders (handleInvoiceSent Ok order st)) = length (orders st)
       \<and> (\<forall>i < length (orders st).
            if oid (orders st ! i) = oid order
            then isInvoicePrinted (orders (handleInvoiceSent Ok order st) ! i) \<and>
                 orders (handleInvoiceSent Ok order st) ! i =
                   (orders st ! i)\<lparr> isInvoicePrinted := True \<rparr>
            else orders (handleInvoiceSent Ok order st) ! i = orders st ! i)
       \<and> (searchResults st = None \<longrightarrow> searchResults (handleInvoiceSent Ok order st) = None)
       \<and> (\<forall>found. searchResults st = Some found \<longrightarrow>
            (\<exists>found'. searchResults (handleInvoiceSent Ok order st) = Some found' \<and>
               length found' = length found \<and>
               (\<forall>i < length found.
                  if oid (found ! i) = oid order
                  then isInvoicePrinted (found' ! i) \<and>
                       found' ! i = (found ! i)\<lparr> isInvoicePrinted := True \<rparr>
                  else found' ! i = found ! i)))"
proof (intro conjI)
  note eqs = handleInvoiceSent_Ok [OF sup, of order]
  show "length (orders (handleInvoiceSent Ok order st)) = length (orders st)"
    by (simp add: eqs)
  show "\<forall>i < length (orders st).
            if oid (orders st ! i) = oid order
            then isInvoicePrinted (orders (handleInvoiceSent Ok order st) ! i) \<and>
                 orders (handleInvoiceSent Ok order st) ! i =
                   (orders st ! i)\<lparr> isInvoicePrinted := True \<rparr>
            else orders (handleInvoiceSent Ok order st) ! i = orders st ! i"
    by (simp add: eqs mark_printed_def)
  show "searchResults st = None \<longrightarrow> searchResults (handleInvoiceSent Ok order st) = None"
    by (simp add: eqs)
  show "\<forall>found. searchResults st = Some found \<longrightarrow>
            (\<exists>found'. searchResults (handleInvoiceSent Ok order st) = Some found' \<and>
               length found' = length found \<and>
               (\<forall>i < length found.
                  if oid (found ! i) = oid order
                  then isInvoicePrinted (found' ! i) \<and>
                       found' ! i = (found ! i)\<lparr> isInvoicePrinted := True \<rparr>
                  else found' ! i = found ! i))"
    by (simp add: eqs mark_printed_def)
qed

theorem C10_invoice_frame_witness:
  "supabase state1 = Some store0 \<and> searchResults state1 = Some [order0] \<and>
   0 < length (orders state1) \<and> oid (orders state1 ! 0) \<noteq> oid order0 \<and>
   orders (handleInvoiceSent Ok order0 state1) ! 0 = orders state1 ! 0 \<and>
   searchResults (handleInvoiceSent Ok order0 state1) =
     Some [order0\<lparr> isInvoicePrinted := True \<rparr>]"
proof -
  have h1: "supabase state1 = Some store0"
    by (simp add: state1_def state0_def)
  have h2: "searchResults state1 = Some [order0]"
    by (simp add: state1_def)
  have h3: "0 < length (orders state1) \<and> oid (orders state1 ! 0) \<noteq> oid order0"
    by (simp add: state1_def order0_def order1_def)
  from C10_invoice_frame [OF h1, of order0] h3
  have a: "orders (handleInvoiceSent Ok order0 state1) ! 0 = orders state1 ! 0"
    by simp
  from C10_invoice_frame [OF h1, of order0] h2
  obtain found' where f: "searchResults (handleInvoiceSent Ok order0 state1) = Some found'"
    "length found' = length [order0]"
    "\<forall>i < length [order0]. if oid ([order0] ! i) = oid order0
        then isInvoicePrinted (found' ! i) \<and> found' ! i = ([order0] ! i)\<lparr> isInvoicePrinted := True \<rparr>
        else found' ! i = [order0] ! i"
    by blast
  from f(3) have "found' ! 0 = order0\<lparr> isInvoicePrinted := True \<rparr>"
    by simp
  with f(2) have "found' = [order0\<lparr> isInvoicePrinted := True \<rparr>]"
    by (cases found') simp_all
  with f(1) h1 h2 h3 a show ?thesis by simp
qed


subsection \<open>Reverting a status: the claim\<close>

text \<open>
  Claim C2 fails at two concrete inputs. In \<open>state1\<close> the order \<open>a-1\<close> is displayed (from
  the search results), its status is COMPLETED, and the revert returns \<open>false\<close> and changes
  nothing, because the order is not in \<^verbatim>\<open>orders\<close>. In \<open>state_stale\<close> the page's copy of the
  order has an empty history while the stored history has two entries; the revert
  succeeds and the stored history is then the one new entry: nothing was appended to it.
\<close>

theorem C2_counterexample:
  "filteredOrders by_length ''2025-03-01'' (Some (ascii ''FCD-1'')) ''all'' ''all'' state1 =
     [order0] \<and>
   status order0 = COMPLETED \<and> status order0 \<noteq> NEW \<and>
   stored_status state1 0 = Some (JStr COMPLETED) \<and>
   handleRevertStatus env0 Ok ''a-1'' None state1 = (False, state1) \<and>
   orders state_stale = [order0\<lparr> history := Some [] \<rparr>, order1] \<and>
   stored_history_at state_stale 0 = Some [entry0, entry1] \<and>
   fst (handleRevertStatus env0 Ok ''a-1'' None state_stale) \<and>
   stored_history_at (snd (handleRevertStatus env0 Ok ''a-1'' None state_stale)) 0 =
     Some [revert_entry env0 OUT_FOR_DELIVERY]"
proof (intro conjI)
  show "filteredOrders by_length ''2025-03-01'' (Some (ascii ''FCD-1'')) ''all'' ''all'' state1 =
     [order0]"
    by (simp add: filteredOrders_def fixture_defs eval_defs ascii_def)
  show "status order0 = COMPLETED" and "status order0 \<noteq> NEW"
    by (simp_all add: order0_def OrderStatus_defs)
  show "stored_status state1 0 = Some (JStr COMPLETED)"
    by (simp add: fixture_defs eval_defs)
  show "handleRevertStatus env0 Ok ''a-1'' None state1 = (False, state1)"
    by (simp add: handleRevertStatus_def fixture_defs)
  show "orders state_stale = [order0\<lparr> history := Some [] \<rparr>, order1]"
    by (simp add: state_stale_def)
  show "stored_history_at state_stale 0 = Some [entry0, entry1]"
    by (simp add: state_stale_def fixture_defs eval_defs)
  show "fst (handleRevertStatus env0 Ok ''a-1'' None state_stale)"
    by (simp add: handleRevertStatus_def state_stale_def fixture_defs eval_defs OrderStatus_defs)
  show "stored_history_at (snd (handleRevertStatus env0 Ok ''a-1'' None state_stale)) 0 =
     Some [revert_entry env0 OUT_FOR_DELIVERY]"
    by (simp add: handleRevertStatus_def state_stale_def fixture_defs eval_defs OrderStatus_defs
        revert_entry_def)
qed

lemma handleRevertStatus_Failed:
  assumes "supabase st = Some rs"
    and "find (\<lambda>x. oid x = orderId) (orders st) = Some order"
    and "prevStatus_of (status order) = Some p"
  shows "handleRevertStatus env (Failed e) orderId password st =
           (False, showToast (ToastError e)
              (st\<lparr> supabase := Some (update_Orders (Failed e) (revert_payload env order p)
                                        ''id'' orderId rs) \<rparr>))"
  using assms by (simp add: handleRevertStatus_def)

lemma handleRevertStatus_not_found:
  assumes "find (\<lambda>x. oid x = orderId) (orders st) = None"
  shows "handleRevertStatus env res orderId password st = (False, st)"
  using assms by (simp add: handleRevertStatus_def split: option.splits)

lemma stored_history_revert:
  assumes "history order = Some h" and "row_matches ''id'' orderId r"
  shows "stored_history (apply_update (revert_payload env order p) ''id'' orderId r) =
           Some (h @ [revert_entry env p])"
  using assms
  by (simp add: stored_history_def map_of_apply_update map_add_def revert_payload_def
      revert_entry_def history_or_empty_def)

lemma reverted_rows:
  assumes sup: "supabase st = Some rs"
    and found: "find (\<lambda>x. oid x = orderId) (orders st) = Some order"
    and sp: "(status order, p) \<in> set spec_predecessor"
  shows "\<exists>rs'. supabase (snd (handleRevertStatus env Ok orderId password st)) = Some rs' \<and>
               length (Orders rs') = length (Orders rs) \<and>
               (\<forall>i < length (Orders rs).
                  if row_matches ''id'' orderId (Orders rs ! i)
                  then map_of (Orders rs' ! i) ''status'' = Some (JStr p) \<and>
                       (\<forall>h. stored_history (Orders rs ! i) = Some h \<and> history order = Some h \<longrightarrow>
                          stored_history (Orders rs' ! i) = Some (h @ [revert_entry env p])) \<and>
                       (\<forall>k. k \<noteq> ''status'' \<and> k \<noteq> ''history'' \<longrightarrow>
                          map_of (Orders rs' ! i) k = map_of (Orders rs ! i) k)
                  else Orders rs' ! i = Orders rs ! i)"
proof -
  note eq = handleRevertStatus_Ok [OF sup found prevStatus_of_spec [OF sp], of env password]
  let ?rs' = "update_Orders Ok (revert_payload env order p) ''id'' orderId rs"
  have "supabase (snd (handleRevertStatus env Ok orderId password st)) = Some ?rs'"
    by (simp add: eq showToast_def)
  moreover have "length (Orders ?rs') = length (Orders rs)"
    by (simp add: update_Orders_def)
  moreover have "\<forall>i < length (Orders rs).
                  if row_matches ''id'' orderId (Orders rs ! i)
                  then map_of (Orders ?rs' ! i) ''status'' = Some (JStr p) \<and>
                       (\<forall>h. stored_history (Orders rs ! i) = Some h \<and> history order = Some h \<longrightarrow>
                          stored_history (Orders ?rs' ! i) = Some (h @ [revert_entry env p])) \<and>
                       (\<forall>k. k \<noteq> ''status'' \<and> k \<noteq> ''history'' \<longrightarrow>
                          map_of (Orders ?rs' ! i) k = map_of (Orders rs ! i) k)
                  else Orders ?rs' ! i = Orders rs ! i"
  proof (intro allI impI)
    fix i assume i: "i < length (Orders rs)"
    have nth: "Orders ?rs' ! i = apply_update (revert_payload env order p) ''id'' orderId (Orders rs ! i)"
      using i by (simp add: update_Orders_def)
    show "if row_matches ''id'' orderId (Orders rs ! i)
                  then map_of (Orders ?rs' ! i) ''status'' = Some (JStr p) \<and>
                       (\<forall>h. stored_history (Orders rs ! i) = Some h \<and> history order = Some h \<longrightarrow>
                          stored_history (Orders ?rs' ! i) = Some (h @ [revert_entry env p])) \<and>
                       (\<forall>k. k \<noteq> ''status'' \<and> k \<noteq> ''history'' \<longrightarrow>
                          map_of (Orders ?rs' ! i) k = map_of (Orders rs ! i) k)
                  else Orders ?rs' ! i = Orders rs ! i"
    proof (cases "row_matches ''id'' orderId (Orders rs ! i)")
      case True
      have "map_of (Orders ?rs' ! i) ''status'' = Some (JStr p)"
        unfolding nth using True by (simp add: map_of_apply_update map_add_def revert_payload_def)
      moreover have "\<forall>h. stored_history (Orders rs ! i) = Some h \<and> history order = Some h \<longrightarrow>
                          stored_history (Orders ?rs' ! i) = Some (h @ [revert_entry env p])"
        unfolding nth using True by (simp add: stored_history_revert)
      moreover have "\<forall>k. k \<noteq> ''status'' \<and> k \<noteq> ''history'' \<longrightarrow>
                          map_of (Orders ?rs' ! i) k = map_of (Orders rs ! i) k"
        unfolding nth using True by (simp add: map_of_apply_update map_add_def revert_payload_def)
      ultimately show ?thesis using True by simp
    next
      case False
      then show ?thesis by (simp add: nth apply_update_def)
    qed
  qed
  ultimately show ?thesis by blast
qed

text \<open>
  Claim C2 as amended. With the client configured: for an order that is found in
  \<^verbatim>\<open>orders\<close> and whose status \<open>s\<close> has the predecessor \<open>p\<close> in the fixed mapping of the
  specification, a revert whose remote update succeeds returns \<open>true\<close>, and in every stored
  row with this id the status becomes \<open>p\<close>, the history, where the page's copy of it is the
  stored one, becomes the stored history followed by the one entry "Status reverted to
  \<open>p\<close>", and no other column changes; the other rows are unchanged. When the remote
  update fails the revert returns \<open>false\<close> and no row changes. For an order whose status is
  NEW (the \<^verbatim>\<open>default\<close> branch, the specification's NoPriorState), and for an order that is
  not found in \<^verbatim>\<open>orders\<close>, the revert returns \<open>false\<close> and nothing changes. The statuses that
  have a predecessor are the seven of the enum except NEW.
\<close>

theorem C2_revert:
  assumes sup: "supabase st = Some rs"
  shows "(\<forall>order. find (\<lambda>x. oid x = orderId) (orders st) = Some order \<longrightarrow>
           ((status order, p) \<in> set spec_predecessor \<longrightarrow>
              fst (handleRevertStatus env Ok orderId password st) \<and>
              (\<exists>rs'. supabase (snd (handleRevertStatus env Ok orderId password st)) = Some rs' \<and>
                 length (Orders rs') = length (Orders rs) \<and>
                 (\<forall>i < length (Orders rs).
                    if row_matches ''id'' orderId (Orders rs ! i)
                    then map_of (Orders rs' ! i) ''status'' = Some (JStr p) \<and>
                         (\<forall>h. stored_history (Orders rs ! i) = Some h \<and> history order = Some h \<longrightarrow>
                            stored_history (Orders rs' ! i) = Some (h @ [revert_entry env p])) \<and>
                         (\<forall>k. k \<noteq> ''status'' \<and> k \<noteq> ''history'' \<longrightarrow>
                            map_of (Orders rs' ! i) k = map_of (Orders rs ! i) k)
                    else Orders rs' ! i = Orders rs ! i)) \<and>
              \<not> fst (handleRevertStatus env (Failed e) orderId password st) \<and>
              (\<exists>rs'. supabase (snd (handleRevertStatus env (Failed e) orderId password st)) = Some rs' \<and>
                 Orders rs' = Orders rs))
           \<and> (status order = NEW \<longrightarrow>
                handleRevertStatus env res orderId password st = (False, st)))
       \<and> (find (\<lambda>x. oid x = orderId) (orders st) = None \<longrightarrow>
            handleRevertStatus env res orderId password st = (False, st))
       \<and> set (map fst spec_predecessor) = set OrderStatus_values - {NEW}"
proof (intro conjI allI impI)
  fix order
  assume found: "find (\<lambda>x. oid x = orderId) (orders st) = Some order"
  {
    assume sp: "(status order, p) \<in> set spec_predecessor"
    show "fst (handleRevertStatus env Ok orderId password st)"
      by (simp add: handleRevertStatus_Ok [OF sup found prevStatus_of_spec [OF sp]])
    show "\<exists>rs'. supabase (snd (handleRevertStatus env Ok orderId password st)) = Some rs' \<and>
                 length (Orders rs') = length (Orders rs) \<and>
                 (\<forall>i < length (Orders rs).
                    if row_matches ''id'' orderId (Orders rs ! i)
                    then map_of (Orders rs' ! i) ''status'' = Some (JStr p) \<and>
                         (\<forall>h. stored_history (Orders rs ! i) = Some h \<and> history order = Some h \<longrightarrow>
                            stored_history (Orders rs' ! i) = Some (h @ [revert_entry env p])) \<and>
                         (\<forall>k. k \<noteq> ''status'' \<and> k \<noteq> ''history'' \<longrightarrow>
                            map_of (Orders rs' ! i) k = map_of (Orders rs ! i) k)
                    else Orders rs' ! i = Orders rs ! i)"
      by (rule reverted_rows [OF sup found sp])
    note eqf = handleRevertStatus_Failed [OF sup found prevStatus_of_spec [OF sp], of env e password]
    show "\<not> fst (handleRevertStatus env (Failed e) orderId password st)"
      by (simp add: eqf)
    show "\<exists>rs'. supabase (snd (handleRevertStatus env (Failed e) orderId password st)) = Some rs' \<and>
                 Orders rs' = Orders rs"
      by (simp add: eqf showToast_def update_Orders_def)
  }
  {
    assume "status order = NEW"
    then show "handleRevertStatus env res orderId password st = (False, st)"
      using handleRevertStatus_None [OF sup found] by (simp add: prevStatus_of_NEW)
  }
next
  assume "find (\<lambda>x. oid x = orderId) (orders st) = None"
  then show "handleRevertStatus env res orderId password st = (False, st)"
    by (rule handleRevertStatus_not_found)
next
  show "set (map fst spec_predecessor) = set OrderStatus_values - {NEW}"
    by (rule spec_predecessor_dom)
qed

theorem C2_revert_witness:
  "supabase state0 = Some store0 \<and>
   find (\<lambda>x. oid x = ''a-1'') (orders state0) = Some order0 \<and>
   (status order0, OUT_FOR_DELIVERY) \<in> set spec_predecessor \<and>
   0 < length (Orders store0) \<and> row_matches ''id'' ''a-1'' (Orders store0 ! 0) \<and>
   stored_history (Orders store0 ! 0) = Some [entry0, entry1] \<and>
   history order0 = Some [entry0, entry1] \<and>
   fst (handleRevertStatus env0 Ok ''a-1'' None state0) \<and>
   stored_history_at (snd (handleRevertStatus env0 Ok ''a-1'' None state0)) 0 =
     Some [entry0, entry1, revert_entry env0 OUT_FOR_DELIVERY] \<and>
   \<not> fst (handleRevertStatus env0 (Failed ''offline'') ''a-1'' None state0) \<and>
   find (\<lambda>x. oid x = ''b-2'') (orders state0) = Some order1 \<and> status order1 = NEW \<and>
   handleRevertStatus env0 Ok ''b-2'' None state0 = (False, state0) \<and>
   find (\<lambda>x. oid x = ''a-1'') (orders state1) = None \<and>
   handleRevertStatus env0 Ok ''a-1'' None state1 = (False, state1)"
proof -
  have h1: "supabase state0 = Some store0"
    by (simp add: state0_def)
  have h1': "supabase state1 = Some store0"
    by (simp add: state1_def state0_def)
  have h2: "find (\<lambda>x. oid x = ''a-1'') (orders state0) = Some order0"
    by (simp add: state0_def order0_def)
  have h3: "(status order0, OUT_FOR_DELIVERY) \<in> set spec_predecessor"
    by (simp add: order0_def spec_predecessor_def)
  have h4: "find (\<lambda>x. oid x = ''b-2'') (orders state0) = Some order1"
    by (simp add: state0_def order0_def order1_def)
  have h5: "status order1 = NEW"
    by (simp add: order1_def)
  have h6: "0 < length (Orders store0) \<and> row_matches ''id'' ''a-1'' (Orders store0 ! 0)"
    by (simp add: store0_def row_matches_def)
  have h7: "stored_history (Orders store0 ! 0) = Some [entry0, entry1] \<and>
            history order0 = Some [entry0, entry1]"
    by (simp add: store0_def stored_history_def order0_def)
  have h8: "find (\<lambda>x. oid x = ''a-1'') (orders state1) = None"
    by (simp add: state1_def order1_def)
  note c = C2_revert [OF h1, of "''a-1''" OUT_FOR_DELIVERY env0 None "''offline''" Ok]
  from c h2 h3 have a: "fst (handleRevertStatus env0 Ok ''a-1'' None state0)"
    and f: "\<not> fst (handleRevertStatus env0 (Failed ''offline'') ''a-1'' None state0)"
    by blast+
  from c h2 h3 obtain rs' where
    rs': "supabase (snd (handleRevertStatus env0 Ok ''a-1'' None state0)) = Some rs'"
    and rows: "\<forall>i < length (Orders store0).
                    if row_matches ''id'' ''a-1'' (Orders store0 ! i)
                    then map_of (Orders rs' ! i) ''status'' = Some (JStr OUT_FOR_DELIVERY) \<and>
                         (\<forall>h. stored_history (Orders store0 ! i) = Some h \<and> history order0 = Some h \<longrightarrow>
                            stored_history (Orders rs' ! i) = Some (h @ [revert_entry env0 OUT_FOR_DELIVERY])) \<and>
                         (\<forall>k. k \<noteq> ''status'' \<and> k \<noteq> ''history'' \<longrightarrow>
                            map_of (Orders rs' ! i) k = map_of (Orders store0 ! i) k)
                    else Orders rs' ! i = Orders store0 ! i"
    by blast
  from rows h6 h7 have "stored_history (Orders rs' ! 0) =
      Some ([entry0, entry1] @ [revert_entry env0 OUT_FOR_DELIVERY])"
    by (metis (no_types, lifting))
  then have hist: "stored_history_at (snd (handleRevertStatus env0 Ok ''a-1'' None state0)) 0 =
     Some [entry0, entry1, revert_entry env0 OUT_FOR_DELIVERY]"
    by (simp add: stored_history_at_def rs')
  from C2_revert [OF h1, of "''b-2''" OUT_FOR_DELIVERY env0 None "''offline''" Ok] h4 h5
  have b: "handleRevertStatus env0 Ok ''b-2'' None state0 = (False, state0)"
    by blast
  from C2_revert [OF h1', of "''a-1''" OUT_FOR_DELIVERY env0 None "''offline''" Ok] h8
  have n: "handleRevertStatus env0 Ok ''a-1'' None state1 = (False, state1)"
    by blast
  from h1 h2 h3 h4 h5 h6 h7 h8 a f hist b n show ?thesis by blast
qed


subsection \<open>A sequence of payments\<close>

lemmas pay_defs = handlePaymentConfirm_def onUpdatePayment_def
  order_row_def amount_paid_of_def ledger_total_def ledger_amount_def stored_number_def
  insert_OrderPayments_def payment_row_def payment_order_update_def
  payment_entry_def user_or_System_def number_or_zero_def ledger_total_in_def amount_paid_in_def

lemma js_add_zero: "js_add 0 0 = 0"
  by (simp add: js_add_def round_double_def)

lemma js_add_300: "js_add 0 300 = 300"
  by code_simp

lemma js_add_5: "js_add 0 5 = 5"
  by code_simp

lemma js_add_450: "js_add 0 450 = 450"
  by code_simp

lemma js_add_750: "js_add 300 450 = 750"
  by code_simp

lemma js_add_tenth: "js_add 0 tenth = tenth"
  by code_simp

lemma js_add_tenth_fifth: "js_add tenth fifth = 1351079888211149 / 4503599627370496"
  by code_simp

lemmas js_add_evals = js_add_zero js_add_300 js_add_5 js_add_450 js_add_750 js_add_tenth
  js_add_tenth_fifth

text \<open>
  Claim C3 fails at three concrete inputs. (1) One payment of 300 whose ledger insert
  succeeds and whose order update fails: the ledger holds 300, the stored amount paid is
  still 0. (2) Two payments, of 300 and of 450, both fully successful, made from the card
  of an order that is displayed from the search results, which no payment refreshes: the
  second is added to the amount the card still shows, so the ledger holds 750 and the
  stored amount paid is 450. (3) Payments of the doubles nearest to 0.1 and to 0.2, both
  successful and each on an up-to-date card: the stored amount paid is the rounded sum
  0.30000000000000004, which is not the sum of the two ledger amounts.
\<close>

theorem C3_counterexample:
  "amount_paid_in state0 ''a-1'' = Some 0 \<and> ledger_total_in state0 ''a-1'' = 0 \<and>
   ledger_total_in (registerPayments env0 [(order0, details0, Ok, Failed ''offline'')] state0) ''a-1'' = 300 \<and>
   amount_paid_in (registerPayments env0 [(order0, details0, Ok, Failed ''offline'')] state0) ''a-1'' = Some 0 \<and>
   amount_paid_in state1 ''a-1'' = Some 0 \<and> ledger_total_in state1 ''a-1'' = 0 \<and>
   filteredOrders by_length ''2025-03-01'' (Some (ascii ''FCD-1'')) ''all'' ''all''
     (registerPayments env0 [(order0, details0, Ok, Ok)] state1) = [order0] \<and>
   ledger_total_in
     (registerPayments env0 [(order0, details0, Ok, Ok), (order0, details1, Ok, Ok)] state1) ''a-1'' = 750 \<and>
   amount_paid_in
     (registerPayments env0 [(order0, details0, Ok, Ok), (order0, details1, Ok, Ok)] state1) ''a-1'' =
     Some 450 \<and>
   amountPaid order_tenth = Some tenth \<and>
   amount_paid_in (registerPayments env0 [(order0, details_tenth, Ok, Ok)] state0) ''a-1'' = Some tenth \<and>
   ledger_total_in
     (registerPayments env0 [(order0, details_tenth, Ok, Ok), (order_tenth, details_fifth, Ok, Ok)]
        state0) ''a-1'' = 10808639105689191 / 36028797018963968 \<and>
   amount_paid_in
     (registerPayments env0 [(order0, details_tenth, Ok, Ok), (order_tenth, details_fifth, Ok, Ok)]
        state0) ''a-1'' = Some (1351079888211149 / 4503599627370496)"
proof (intro conjI)
  note defs = pay_defs fixture_defs eval_defs details0_def details1_def AList.update_conv'
    js_add_evals order_tenth_def details_tenth_def details_fifth_def
  show "amount_paid_in state0 ''a-1'' = Some 0" and "ledger_total_in state0 ''a-1'' = 0"
    by (simp_all add: defs)
  show "ledger_total_in (registerPayments env0 [(order0, details0, Ok, Failed ''offline'')] state0) ''a-1'' = 300"
    by (simp add: defs)
  show "amount_paid_in (registerPayments env0 [(order0, details0, Ok, Failed ''offline'')] state0) ''a-1'' = Some 0"
    by (simp add: defs)
  show "amount_paid_in state1 ''a-1'' = Some 0" and "ledger_total_in state1 ''a-1'' = 0"
    by (simp_all add: defs)
  show "filteredOrders by_length ''2025-03-01'' (Some (ascii ''FCD-1'')) ''all'' ''all''
     (registerPayments env0 [(order0, details0, Ok, Ok)] state1) = [order0]"
    by (simp add: filteredOrders_def ascii_def defs)
  show "ledger_total_in
     (registerPayments env0 [(order0, details0, Ok, Ok), (order0, details1, Ok, Ok)] state1) ''a-1'' = 750"
    by (simp add: defs)
  show "amount_paid_in
     (registerPayments env0 [(order0, details0, Ok, Ok), (order0, details1, Ok, Ok)] state1) ''a-1'' =
     Some 450"
    by (simp add: defs)
  show "amountPaid order_tenth = Some tenth"
    by (simp add: order_tenth_def)
  show "amount_paid_in (registerPayments env0 [(order0, details_tenth, Ok, Ok)] state0) ''a-1'' = Some tenth"
    by (simp add: defs)
  show "ledger_total_in
     (registerPayments env0 [(order0, details_tenth, Ok, Ok), (order_tenth, details_fifth, Ok, Ok)]
        state0) ''a-1'' = 10808639105689191 / 36028797018963968"
    by (simp add: defs) (simp add: tenth_def fifth_def)
  show "amount_paid_in
     (registerPayments env0 [(order0, details_tenth, Ok, Ok), (order_tenth, details_fifth, Ok, Ok)]
        state0) ''a-1'' = Some (1351079888211149 / 4503599627370496)"
    by (simp add: defs)
qed


lemma number_or_zero_Some: "number_or_zero (Some a) = a"
  by (simp add: number_or_zero_def)

lemma row_matches_apply_update:
  assumes "map_of payload col = None"
  shows "row_matches col val (apply_update payload col val r) = row_matches col val r"
  using assms by (simp add: apply_update_def row_matches_def AList.merge_conv map_add_def)

lemma find_map_same:
  assumes "\<And>x. P (f x) = P x"
  shows "find P (map f xs) = map_option f (find P xs)"
  by (induction xs) (simp_all add: assms)

lemma order_row_update:
  assumes "map_of payload ''id'' = None"
  shows "order_row (update_Orders Ok payload ''id'' i rs) i =
           map_option (\<lambda>r. AList.merge r payload) (order_row rs i)"
proof -
  have "order_row (update_Orders Ok payload ''id'' i rs) i =
          map_option (apply_update payload ''id'' i) (order_row rs i)"
    unfolding order_row_def Orders_update_Ok
    by (rule find_map_same) (rule row_matches_apply_update [OF assms])
  moreover have "\<And>r. order_row rs i = Some r \<Longrightarrow> row_matches ''id'' i r"
    unfolding order_row_def by (auto simp: find_Some_iff)
  ultimately show ?thesis
    by (cases "order_row rs i") (simp_all add: apply_update_def)
qed

lemma payment_failed_insert:
  "amount_paid_in (handlePaymentConfirm env (Failed e) orderRes orderId details st) i =
     amount_paid_in st i \<and>
   ledger_total_in (handlePaymentConfirm env (Failed e) orderRes orderId details st) i =
     ledger_total_in st i"
  by (simp add: handlePaymentConfirm_def amount_paid_in_def ledger_total_in_def showToast_def
      insert_OrderPayments_def amount_paid_of_def order_row_def ledger_total_def Let_def
      split: option.splits)

lemma payment_both_ok:
  assumes paid: "amount_paid_in st (oid sel) = Some a"
    and sel: "selectedOrder st = Some sel"
    and shown: "amountPaid sel = Some a"
    and exact: "js_add a (amountPaid_d details) = a + amountPaid_d details"
  shows "amount_paid_in (handlePaymentConfirm env Ok Ok orderId details st) (oid sel) =
           Some (a + amountPaid_d details) \<and>
         ledger_total_in (handlePaymentConfirm env Ok Ok orderId details st) (oid sel) =
           ledger_total_in st (oid sel) + amountPaid_d details"
proof -
  obtain rs where sup: "supabase st = Some rs" and paid': "amount_paid_of rs (oid sel) = Some a"
    using paid by (auto simp: amount_paid_in_def split: option.splits)
  obtain r where row: "order_row rs (oid sel) = Some r"
    using paid' by (auto simp: amount_paid_of_def split: option.splits)
  define rs1 where "rs1 = insert_OrderPayments Ok (payment_row env sel details) rs"
  define rs2 where
    "rs2 = update_Orders Ok (payment_order_update env sel details) ''id'' (oid sel) rs1"
  have st2: "supabase (handlePaymentConfirm env Ok Ok orderId details st) = Some rs2"
    unfolding rs2_def rs1_def by (rule handlePaymentConfirm_pay_ok [OF sup sel])
  have orders1: "Orders rs1 = Orders rs"
    and pays1: "OrderPayments rs1 = OrderPayments rs @ [payment_row env sel details]"
    by (simp_all add: rs1_def insert_OrderPayments_def)
  have "order_row rs2 (oid sel) =
          map_option (\<lambda>r. AList.merge r (payment_order_update env sel details))
            (order_row rs1 (oid sel))"
    unfolding rs2_def by (rule order_row_update) (simp add: payment_order_update_def)
  moreover have "order_row rs1 (oid sel) = Some r"
    using row by (simp add: order_row_def orders1)
  ultimately have "amount_paid_of rs2 (oid sel) = Some (a + amountPaid_d details)"
    by (simp add: amount_paid_of_def stored_number_def AList.update_conv'
        payment_order_update_def shown number_or_zero_Some exact)
  moreover have "ledger_total rs2 (oid sel) = ledger_total rs (oid sel) + amountPaid_d details"
    by (simp add: ledger_total_def rs2_def OrderPayments_update pays1 payment_row_def
        row_matches_def ledger_amount_def stored_number_def)
  ultimately show ?thesis
    by (simp add: amount_paid_in_def ledger_total_in_def st2 sup)
qed

lemma payments_run:
  assumes "amount_paid_in st i = Some a" and "ledger_total_in st i = a"
    and "sound_run env i calls st"
  shows "amount_paid_in (registerPayments env calls st) i =
           Some (ledger_total_in (registerPayments env calls st) i)"
  using assms
proof (induction calls arbitrary: st a)
  case Nil
  then show ?case by simp
next
  case (Cons c calls)
  obtain clicked details payRes orderRes where c: "c = (clicked, details, payRes, orderRes)"
    by (cases c) auto
  let ?st0 = "onUpdatePayment clicked st"
  let ?st' = "handlePaymentConfirm env payRes orderRes (oid clicked) details ?st0"
  have id: "oid clicked = i" and rest: "sound_run env i calls ?st'"
    using Cons.prems(3) unfolding c sound_run.simps by blast+
  have same: "amount_paid_in ?st0 i = Some a" "ledger_total_in ?st0 i = a"
    "selectedOrder ?st0 = Some clicked"
    using Cons.prems(1,2)
    by (simp_all add: onUpdatePayment_def amount_paid_in_def ledger_total_in_def)
  have "\<exists>a'. amount_paid_in ?st' i = Some a' \<and> ledger_total_in ?st' i = a'"
  proof (cases payRes)
    case (Failed e)
    then show ?thesis
      using payment_failed_insert [of env e orderRes "oid clicked" details ?st0 i] same
      by simp
  next
    case Ok
    from Cons.prems(3) have "orderRes = Ok \<and> amountPaid clicked = amount_paid_in st i \<and>
        js_add (number_or_zero (amountPaid clicked)) (amountPaid_d details) =
          number_or_zero (amountPaid clicked) + amountPaid_d details"
      unfolding c sound_run.simps Ok remote_result.case by blast
    then have ok: "orderRes = Ok" and shown: "amountPaid clicked = Some a"
      and exact: "js_add a (amountPaid_d details) = a + amountPaid_d details"
      using Cons.prems(1) by (auto simp: number_or_zero_Some)
    from payment_both_ok [of ?st0 clicked a details env "oid clicked"] same shown exact id
    show ?thesis
      by (simp add: Ok ok)
  qed
  then obtain a' where "amount_paid_in ?st' i = Some a'" "ledger_total_in ?st' i = a'"
    by blast
  from Cons.IH [OF this rest] show ?case
    by (simp add: c)
qed

lemma stored_payment_columns:
  assumes row: "row_matches ''id'' (oid sel) r"
  shows "stored_number ''amount_paid'' (apply_update (payment_order_update env sel details) ''id'' (oid sel) r) =
           Some (js_add (number_or_zero (amountPaid sel)) (amountPaid_d details))"
    and "stored_number ''transaction_fee'' (apply_update (payment_order_update env sel details) ''id'' (oid sel) r) =
           Some (js_add (number_or_zero (transactionFee sel)) (transactionFee_d details))"
    and "stored_number ''local_delivery_cost'' (apply_update (payment_order_update env sel details) ''id'' (oid sel) r) =
           Some (localDeliveryCost_d details)"
    and "stored_history (apply_update (payment_order_update env sel details) ''id'' (oid sel) r) =
           Some (history_or_empty (history sel) @ [payment_entry env details])"
  using row
  by (simp_all add: stored_number_def stored_history_def map_of_apply_update map_add_def
      payment_order_update_def)

text \<open>
  Claim C3 as amended. With the client configured and an order selected, a payment whose
  two remote writes succeed first inserts the ledger row, for this order and this amount,
  and then updates the order. In every stored row of the order: where the selection shows
  the stored amount paid and its sum with the amount is a double, the amount paid
  increases by exactly the amount; likewise the transaction fee by exactly the fee; the
  delivery cost is set; and where the selection shows the stored history, exactly one
  entry is appended to it. Other rows are unchanged. And for every sound run of payments on
  an order (no call has its insert succeed and its update fail; every call whose insert
  succeeds is made on a card that shows the stored amount paid, with an exactly
  representable sum; calls whose insert fails may occur anywhere), starting from a stored
  amount paid of 0 and a ledger total of 0, the final stored amount paid equals the sum of
  the ledger amounts of the order.
\<close>

theorem C3_registerPayment:
  assumes sup: "supabase st = Some rs" and sel: "selectedOrder st = Some sel"
  shows "(\<exists>rs'. supabase (handlePaymentConfirm env Ok Ok orderId details st) = Some rs' \<and>
            requests rs' = requests rs @
              [Insert ''OrderPayments'' (payment_row env sel details),
               Update ''Orders'' (payment_order_update env sel details) ''id'' (oid sel)] \<and>
            OrderPayments rs' = OrderPayments rs @ [payment_row env sel details] \<and>
            map_of (payment_row env sel details) ''order_id'' = Some (JStr (oid sel)) \<and>
            map_of (payment_row env sel details) ''amount'' = Some (JNum (amountPaid_d details)) \<and>
            length (Orders rs') = length (Orders rs) \<and>
            (\<forall>i < length (Orders rs).
               if row_matches ''id'' (oid sel) (Orders rs ! i)
               then (\<forall>a. stored_number ''amount_paid'' (Orders rs ! i) = Some a \<and>
                         amountPaid sel = Some a \<and>
                         js_add a (amountPaid_d details) = a + amountPaid_d details \<longrightarrow>
                         stored_number ''amount_paid'' (Orders rs' ! i) =
                           Some (a + amountPaid_d details)) \<and>
                    (\<forall>f. stored_number ''transaction_fee'' (Orders rs ! i) = Some f \<and>
                         transactionFee sel = Some f \<and>
                         js_add f (transactionFee_d details) = f + transactionFee_d details \<longrightarrow>
                         stored_number ''transaction_fee'' (Orders rs' ! i) =
                           Some (f + transactionFee_d details)) \<and>
                    stored_number ''local_delivery_cost'' (Orders rs' ! i) =
                      Some (localDeliveryCost_d details) \<and>
                    (\<forall>h. stored_history (Orders rs ! i) = Some h \<and> history sel = Some h \<longrightarrow>
                         stored_history (Orders rs' ! i) = Some (h @ [payment_entry env details]))
               else Orders rs' ! i = Orders rs ! i))
       \<and> (sound_run env k calls st \<and> amount_paid_in st k = Some 0 \<and> ledger_total_in st k = 0 \<longrightarrow>
            amount_paid_in (registerPayments env calls st) k =
              Some (ledger_total_in (registerPayments env calls st) k))"
proof (intro conjI impI)
  let ?row = "payment_row env sel details"
  let ?upd = "payment_order_update env sel details"
  let ?rs' = "update_Orders Ok ?upd ''id'' (oid sel) (insert_OrderPayments Ok ?row rs)"
  have "supabase (handlePaymentConfirm env Ok Ok orderId details st) = Some ?rs'"
    by (rule handlePaymentConfirm_pay_ok [OF sup sel])
  moreover have "requests ?rs' = requests rs @
              [Insert ''OrderPayments'' ?row, Update ''Orders'' ?upd ''id'' (oid sel)]"
    by (simp add: requests_update insert_OrderPayments_def)
  moreover have "OrderPayments ?rs' = OrderPayments rs @ [?row]"
    by (simp add: OrderPayments_update insert_OrderPayments_def)
  moreover have "map_of ?row ''order_id'' = Some (JStr (oid sel))"
    and "map_of ?row ''amount'' = Some (JNum (amountPaid_d details))"
    by (simp_all add: payment_row_def)
  moreover have "length (Orders ?rs') = length (Orders rs)"
    by (simp add: Orders_update_Ok insert_OrderPayments_def)
  moreover have "\<forall>i < length (Orders rs).
               if row_matches ''id'' (oid sel) (Orders rs ! i)
               then (\<forall>a. stored_number ''amount_paid'' (Orders rs ! i) = Some a \<and>
                         amountPaid sel = Some a \<and>
                         js_add a (amountPaid_d details) = a + amountPaid_d details \<longrightarrow>
                         stored_number ''amount_paid'' (Orders ?rs' ! i) =
                           Some (a + amountPaid_d details)) \<and>
                    (\<forall>f. stored_number ''transaction_fee'' (Orders rs ! i) = Some f \<and>
                         transactionFee sel = Some f \<and>
                         js_add f (transactionFee_d details) = f + transactionFee_d details \<longrightarrow>
                         stored_number ''transaction_fee'' (Orders ?rs' ! i) =
                           Some (f + transactionFee_d details)) \<and>
                    stored_number ''local_delivery_cost'' (Orders ?rs' ! i) =
                      Some (localDeliveryCost_d details) \<and>
                    (\<forall>h. stored_history (Orders rs ! i) = Some h \<and> history sel = Some h \<longrightarrow>
                         stored_history (Orders ?rs' ! i) = Some (h @ [payment_entry env details]))
               else Orders ?rs' ! i = Orders rs ! i"
  proof (intro allI impI)
    fix i assume i: "i < length (Orders rs)"
    have nth: "Orders ?rs' ! i = apply_update ?upd ''id'' (oid sel) (Orders rs ! i)"
      using i by (simp add: Orders_update_Ok insert_OrderPayments_def)
    show "if row_matches ''id'' (oid sel) (Orders rs ! i)
               then (\<forall>a. stored_number ''amount_paid'' (Orders rs ! i) = Some a \<and>
                         amountPaid sel = Some a \<and>
                         js_add a (amountPaid_d details) = a + amountPaid_d details \<longrightarrow>
                         stored_number ''amount_paid'' (Orders ?rs' ! i) =
                           Some (a + amountPaid_d details)) \<and>
                    (\<forall>f. stored_number ''transaction_fee'' (Orders rs ! i) = Some f \<and>
                         transactionFee sel = Some f \<and>
                         js_add f (transactionFee_d details) = f + transactionFee_d details \<longrightarrow>
                         stored_number ''transaction_fee'' (Orders ?rs' ! i) =
                           Some (f + transactionFee_d details)) \<and>
                    stored_number ''local_delivery_cost'' (Orders ?rs' ! i) =
                      Some (localDeliveryCost_d details) \<and>
                    (\<forall>h. stored_history (Orders rs ! i) = Some h \<and> history sel = Some h \<longrightarrow>
                         stored_history (Orders ?rs' ! i) = Some (h @ [payment_entry env details]))
               else Orders ?rs' ! i = Orders rs ! i"
    proof (cases "row_matches ''id'' (oid sel) (Orders rs ! i)")
      case True
      note cols = stored_payment_columns [OF True, of env details]
      show ?thesis
        unfolding nth using True
        by (simp add: cols number_or_zero_Some history_or_empty_def)
    next
      case False
      then show ?thesis by (simp add: nth apply_update_def)
    qed
  qed
  ultimately show "\<exists>rs'. supabase (handlePaymentConfirm env Ok Ok orderId details st) = Some rs' \<and>
            requests rs' = requests rs @
              [Insert ''OrderPayments'' (payment_row env sel details),
               Update ''Orders'' (payment_order_update env sel details) ''id'' (oid sel)] \<and>
            OrderPayments rs' = OrderPayments rs @ [payment_row env sel details] \<and>
            map_of (payment_row env sel details) ''order_id'' = Some (JStr (oid sel)) \<and>
            map_of (payment_row env sel details) ''amount'' = Some (JNum (amountPaid_d details)) \<and>
            length (Orders rs') = length (Orders rs) \<and>
            (\<forall>i < length (Orders rs).
               if row_matches ''id'' (oid sel) (Orders rs ! i)
               then (\<forall>a. stored_number ''amount_paid'' (Orders rs ! i) = Some a \<and>
                         amountPaid sel = Some a \<and>
                         js_add a (amountPaid_d details) = a + amountPaid_d details \<longrightarrow>
                         stored_number ''amount_paid'' (Orders rs' ! i) =
                           Some (a + amountPaid_d details)) \<and>
                    (\<forall>f. stored_number ''transaction_fee'' (Orders rs ! i) = Some f \<and>
                         transactionFee sel = Some f \<and>
                         js_add f (transactionFee_d details) = f + transactionFee_d details \<longrightarrow>
                         stored_number ''transaction_fee'' (Orders rs' ! i) =
                           Some (f + transactionFee_d details)) \<and>
                    stored_number ''local_delivery_cost'' (Orders rs' ! i) =
                      Some (localDeliveryCost_d details) \<and>
                    (\<forall>h. stored_history (Orders rs ! i) = Some h \<and> history sel = Some h \<longrightarrow>
                         stored_history (Orders rs' ! i) = Some (h @ [payment_entry env details]))
               else Orders rs' ! i = Orders rs ! i)"
    by blast
next
  assume a: "sound_run env k calls st \<and> amount_paid_in st k = Some 0 \<and> ledger_total_in st k = 0"
  then show "amount_paid_in (registerPayments env calls st) k =
              Some (ledger_total_in (registerPayments env calls st) k)"
    using payments_run [of st k 0 env calls] by simp
qed

theorem C3_registerPayment_witness:
  "supabase state0 = Some store0 \<and> selectedOrder state0 = Some order0 \<and>
   sound_run env0 ''a-1'' sound_calls state0 \<and>
   amount_paid_in state0 ''a-1'' = Some 0 \<and> ledger_total_in state0 ''a-1'' = 0 \<and>
   ledger_total_in (registerPayments env0 sound_calls state0) ''a-1'' = 750 \<and>
   amount_paid_in (registerPayments env0 sound_calls state0) ''a-1'' = Some 750"
proof -
  note defs = pay_defs fixture_defs eval_defs details0_def details1_def AList.update_conv'
    js_add_evals order0_paid_def sound_calls_def
  have h1: "supabase state0 = Some store0"
    by (simp add: state0_def)
  have h2: "selectedOrder state0 = Some order0"
    by (simp add: state0_def)
  have h3: "sound_run env0 ''a-1'' sound_calls state0"
    by (simp add: defs)
  have h4: "amount_paid_in state0 ''a-1'' = Some 0 \<and> ledger_total_in state0 ''a-1'' = 0"
    by (simp add: defs)
  have h5: "ledger_total_in (registerPayments env0 sound_calls state0) ''a-1'' = 750"
    by (simp add: defs)
  from C3_registerPayment [OF h1 h2, of env0 "''a-1''" details0 "''a-1''" sound_calls] h3 h4
  have "amount_paid_in (registerPayments env0 sound_calls state0) ''a-1'' =
          Some (ledger_total_in (registerPayments env0 sound_calls state0) ''a-1'')"
    by blast
  with h1 h2 h3 h4 h5 show ?thesis by simp
qed


subsection \<open>Debounced search\<close>

lemmas search_defs = run_def step_def fire_due_def searchEffect_def trim_def js_whitespace_def
  clearTimeout_def setTimeout_def call_of_def reply_is_live_def mount_def unmount_def
  queries_def ascii_def Let_def

text \<open>
  Claim C5, evaluated where the code departs from it. In the run \<open>race\<close> both queries are
  issued; the reply to the newer one (\<^verbatim>\<open>ab\<close>) is shown first, and the reply to the superseded
  one (\<^verbatim>\<open>a\<close>), arriving later, replaces it. In the run \<open>cleared\<close> the search is emptied while
  its query is in flight, the results are reset, and the late reply brings them back.
\<close>

theorem C5_stale_reply_shown:
  "queries (run race state0) = [(600, ascii ''a''), (1300, ascii ''ab'')] \<and>
   searchResults (run (take 3 race) state0) = Some [order1] \<and>
   searchResults (run race state0) = Some [order0] \<and>
   queries (run cleared state0) = [(600, ascii ''a'')] \<and>
   searchResults (run (take 2 cleared) state0) = None \<and>
   searchResults (run cleared state0) = Some [order0]"
proof (intro conjI)
  show "queries (run race state0) = [(600, ascii ''a''), (1300, ascii ''ab'')]"
    by (simp add: race_def state0_def search_defs)
  show "searchResults (run (take 3 race) state0) = Some [order1]"
    by (simp add: race_def state0_def search_defs)
  show "searchResults (run race state0) = Some [order0]"
    by (simp add: race_def state0_def search_defs)
  show "queries (run cleared state0) = [(600, ascii ''a'')]"
    by (simp add: cleared_def state0_def search_defs)
  show "searchResults (run (take 2 cleared) state0) = None"
    by (simp add: cleared_def state0_def search_defs)
  show "searchResults (run cleared state0) = Some [order0]"
    by (simp add: cleared_def state0_def search_defs)
qed

text \<open>
  Claim C6 fails at two concrete inputs. When the last of the terms typed is a blank, no
  query is ever issued. And when the view is left and entered again between two terms
  typed within 600 ms of each other, the timer of the first page is never cleared: two
  queries are issued, one for each term.
\<close>

theorem C6_counterexample:
  "within_window typed_blank \<and> snd (last typed_blank) = ascii '' '' \<and>
   queries (fire_due 100000 (run (keystrokes typed_blank) state0)) = [] \<and>
   queries (fire_due 100000 (run visit state0)) = [(600, ascii ''a''), (900, ascii ''b'')]"
proof (intro conjI)
  show "within_window typed_blank" and "snd (last typed_blank) = ascii '' ''"
    by (simp_all add: typed_blank_def)
  show "queries (fire_due 100000 (run (keystrokes typed_blank) state0)) = []"
    by (simp add: typed_blank_def keystrokes_def state0_def search_defs)
  show "queries (fire_due 100000 (run visit state0)) = [(600, ascii ''a''), (900, ascii ''b'')]"
    by (simp add: visit_def state0_def search_defs)
qed

lemma fire_due_quiet:
  assumes "quiet t st"
  shows "fire_due t st = st"
proof -
  have "filter (\<lambda>x. due x \<le> t) (timers st) = []"
    and "filter (\<lambda>x. \<not> due x \<le> t) (timers st) = timers st"
    using assms by (auto simp: quiet_def split: list.splits)
  then show ?thesis
    by (simp add: fire_due_def)
qed

lemma cleared_quiet:
  assumes "quiet t st"
  shows "timers (case searchTimeoutRef st of
                   None \<Rightarrow> st
                 | Some i \<Rightarrow> (if i \<noteq> 0 then clearTimeout i st else st)) = []"
  using assms by (auto simp: quiet_def clearTimeout_def split: list.splits option.splits)

lemma step_keystroke:
  assumes q: "quiet t st"
  shows "mounted (step (t, TermChanged (Some s)) st)"
    and "searchCalls (step (t, TermChanged (Some s)) st) = []"
    and "0 < nextTimerId (step (t, TermChanged (Some s)) st)"
    and "trim s \<noteq> [] \<Longrightarrow>
           timers (step (t, TermChanged (Some s)) st) =
             [\<lparr> timerId = nextTimerId st, due = t + 600, captured = s,
                owner = pageInstance st \<rparr>] \<and>
           searchTimeoutRef (step (t, TermChanged (Some s)) st) = Some (nextTimerId st)"
    and "trim s = [] \<Longrightarrow> timers (step (t, TermChanged (Some s)) st) = []"
proof -
  let ?st1 = "case searchTimeoutRef st of
                None \<Rightarrow> st
              | Some i \<Rightarrow> (if i \<noteq> 0 then clearTimeout i st else st)"
  have m: "mounted st" and c: "searchCalls st = []" and n: "0 < nextTimerId st"
    using q by (simp_all add: quiet_def)
  have same: "mounted ?st1 = mounted st" "searchCalls ?st1 = searchCalls st"
    "nextTimerId ?st1 = nextTimerId st" "pageInstance ?st1 = pageInstance st"
    by (simp_all add: clearTimeout_def split: option.splits)
  have empty: "timers ?st1 = []"
    by (rule cleared_quiet [OF q])
  have eq: "step (t, TermChanged (Some s)) st = searchEffect t (Some s) st"
    by (simp add: step_def fire_due_quiet [OF q] m)
  show "mounted (step (t, TermChanged (Some s)) st)"
    unfolding eq by (simp add: searchEffect_def setTimeout_def Let_def same m)
  show "searchCalls (step (t, TermChanged (Some s)) st) = []"
    unfolding eq by (simp add: searchEffect_def setTimeout_def Let_def same c)
  show "0 < nextTimerId (step (t, TermChanged (Some s)) st)"
    unfolding eq using n by (simp add: searchEffect_def setTimeout_def Let_def same)
  show "timers (step (t, TermChanged (Some s)) st) =
             [\<lparr> timerId = nextTimerId st, due = t + 600, captured = s,
                owner = pageInstance st \<rparr>] \<and>
           searchTimeoutRef (step (t, TermChanged (Some s)) st) = Some (nextTimerId st)"
    if "trim s \<noteq> []"
    unfolding eq using that by (simp add: searchEffect_def setTimeout_def Let_def same empty)
  show "timers (step (t, TermChanged (Some s)) st) = []" if "trim s = []"
    unfolding eq using that by (simp add: searchEffect_def Let_def empty)
qed

lemma quiet_after_keystroke:
  assumes "quiet t st" and "t' < t + 600"
  shows "quiet t' (step (t, TermChanged (Some s)) st)"
proof (cases "trim s = []")
  case True
  then show ?thesis
    using step_keystroke(1,2,3,5) [OF assms(1), of s] by (simp add: quiet_def)
next
  case False
  then show ?thesis
    using step_keystroke(1,2,3,4) [OF assms(1), of s] assms
    by (simp add: quiet_def)
qed

lemma run_keystrokes:
  assumes "quiet (fst k) st" and "within_window (k # ks)"
  shows "searchCalls (run (keystrokes (k # ks)) st) = [] \<and>
         map call_of (timers (run (keystrokes (k # ks)) st)) =
           (if trim (snd (last (k # ks))) \<noteq> []
            then [\<lparr> issuedAt = fst (last (k # ks)) + 600, query = snd (last (k # ks)),
                    awaitedBy = pageInstance st \<rparr>]
            else [])"
  using assms
proof (induction ks arbitrary: k st)
  case Nil
  show ?case
    using step_keystroke(2,4,5) [OF Nil.prems(1), of "snd k"]
    by (cases "trim (snd k) = []") (simp_all add: run_def keystrokes_def call_of_def)
next
  case (Cons k' ks)
  let ?st1 = "step (fst k, TermChanged (Some (snd k))) st"
  have "fst k' < fst k + 600" and w: "within_window (k' # ks)"
    using Cons.prems(2) by simp_all
  then have q: "quiet (fst k') ?st1"
    using quiet_after_keystroke [OF Cons.prems(1)] by simp
  have inst: "pageInstance ?st1 = pageInstance st"
    using Cons.prems(1)
    by (simp add: step_def fire_due_quiet searchEffect_def setTimeout_def clearTimeout_def Let_def
        quiet_def split: option.splits)
  have "run (keystrokes (k # k' # ks)) st = run (keystrokes (k' # ks)) ?st1"
    by (simp add: run_def keystrokes_def)
  with Cons.IH [OF q w] show ?case
    by (simp add: inst)
qed

text \<open>
  Claim C6 as amended. On a page that stays mounted, starting with no timer pending and
  no query issued: when terms are typed each less than 600 ms after the one before, no
  query has been issued when the last term has been handled, and as time passes to \<open>T\<close>
  the queries issued are none before 600 ms have passed since the last term; from then on
  they are exactly one, for the last term, when that term is not blank, and none when it is
  blank.
\<close>

theorem C6_debounce:
  assumes nonempty: "ks \<noteq> []"
    and close: "within_window ks"
    and "mounted st" and "timers st = []" and "searchCalls st = []" and "0 < nextTimerId st"
  shows "queries (run (keystrokes ks) st) = [] \<and>
         queries (fire_due T (run (keystrokes ks) st)) =
           (if trim (snd (last ks)) \<noteq> [] \<and> fst (last ks) + 600 \<le> T
            then [(fst (last ks) + 600, snd (last ks))] else [])"
proof -
  obtain k rest where ks: "ks = k # rest"
    using nonempty by (cases ks) auto
  have "quiet (fst k) st"
    using assms(3-6) by (simp add: quiet_def)
  from run_keystrokes [OF this close [unfolded ks]]
  have calls: "searchCalls (run (keystrokes ks) st) = []"
    and pending: "map call_of (timers (run (keystrokes ks) st)) =
           (if trim (snd (last ks)) \<noteq> []
            then [\<lparr> issuedAt = fst (last ks) + 600, query = snd (last ks),
                    awaitedBy = pageInstance st \<rparr>]
            else [])"
    by (simp_all add: ks)
  have due: "map call_of (filter (\<lambda>x. due x \<le> T) (timers (run (keystrokes ks) st))) =
               filter (\<lambda>c. issuedAt c \<le> T) (map call_of (timers (run (keystrokes ks) st)))"
    by (simp add: filter_map comp_def call_of_def)
  show ?thesis
    by (simp add: queries_def calls fire_due_def due pending)
qed

theorem C6_debounce_witness:
  "typed \<noteq> [] \<and> within_window typed \<and> trim (snd (last typed)) \<noteq> [] \<and>
   mounted state0 \<and> timers state0 = [] \<and> searchCalls state0 = [] \<and> 0 < nextTimerId state0 \<and>
   queries (fire_due 1249 (run (keystrokes typed) state0)) = [] \<and>
   queries (fire_due 1250 (run (keystrokes typed) state0)) = [(1250, ascii ''abc'')] \<and>
   typed_blank \<noteq> [] \<and> within_window typed_blank \<and> trim (snd (last typed_blank)) = [] \<and>
   queries (fire_due 100000 (run (keystrokes typed_blank) state0)) = []"
proof -
  have h1: "typed \<noteq> []" "typed_blank \<noteq> []"
    by (simp_all add: typed_def typed_blank_def)
  have h2: "within_window typed" "within_window typed_blank"
    by (simp_all add: typed_def typed_blank_def)
  have h3: "trim (snd (last typed)) \<noteq> []" "trim (snd (last typed_blank)) = []"
    by (simp_all add: typed_def typed_blank_def trim_def js_whitespace_def ascii_def)
  have h4: "mounted state0" "timers state0 = []" "searchCalls state0 = []" "0 < nextTimerId state0"
    by (simp_all add: state0_def)
  have l: "last typed = (650, ascii ''abc'')"
    by (simp add: typed_def)
  from C6_debounce [OF h1(1) h2(1) h4, of 1249] C6_debounce [OF h1(1) h2(1) h4, of 1250]
    C6_debounce [OF h1(2) h2(2) h4, of 100000] h1 h2 h3 h4
  show ?thesis by (simp add: l)
qed


subsection \<open>The displayed list\<close>

lemma set_insert_sorted: "set (insert_sorted cmp x ys) = insert x (set ys)"
  by (induction ys) auto

lemma mset_insert_sorted: "mset (insert_sorted cmp x ys) = add_mset x (mset ys)"
  by (induction ys) auto

lemma mset_js_sort: "mset (js_sort cmp xs) = mset xs"
  by (induction xs) (auto simp: mset_insert_sorted)

lemma sorted_insert_sorted:
  assumes total: "\<And>a b. \<not> goes_before cmp a b \<Longrightarrow> goes_before cmp b a"
    and trans: "\<And>a b c. goes_before cmp a b \<Longrightarrow> goes_before cmp b c \<Longrightarrow> goes_before cmp a c"
    and sorted: "sorted_wrt (goes_before cmp) ys"
  shows "sorted_wrt (goes_before cmp) (insert_sorted cmp x ys)"
  using sorted
proof (induction ys)
  case Nil
  then show ?case by simp
next
  case (Cons y ys)
  show ?case
  proof (cases "cmp x y \<le> 0")
    case True
    then have xy: "goes_before cmp x y"
      by (simp add: goes_before_def)
    have "\<forall>z \<in> set ys. goes_before cmp x z"
      using Cons.prems trans [OF xy] by auto
    with True xy Cons.prems show ?thesis by simp
  next
    case False
    then have "goes_before cmp y x"
      using total [of x y] by (simp add: goes_before_def)
    with False Cons show ?thesis
      by (auto simp: set_insert_sorted)
  qed
qed

lemma sorted_js_sort:
  assumes total: "\<And>a b. \<not> goes_before cmp a b \<Longrightarrow> goes_before cmp b a"
    and trans: "\<And>a b c. goes_before cmp a b \<Longrightarrow> goes_before cmp b c \<Longrightarrow> goes_before cmp a c"
  shows "sorted_wrt (goes_before cmp) (js_sort cmp xs)"
  by (induction xs) (simp_all add: sorted_insert_sorted [OF total trans])

lemma order_compare_total:
  assumes total: "\<And>a b. 0 < localeCompare a b \<Longrightarrow> localeCompare b a \<le> 0"
  shows "\<not> goes_before (order_compare localeCompare) a b \<Longrightarrow>
         goes_before (order_compare localeCompare) b a"
  using total [of "localOrderId b" "localOrderId a"]
  by (auto simp: goes_before_def order_compare_def Let_def split: if_splits)

lemma order_compare_trans:
  assumes trans: "\<And>a b c. localeCompare a b \<le> 0 \<Longrightarrow> localeCompare b c \<le> 0 \<Longrightarrow>
                    localeCompare a c \<le> 0"
  shows "goes_before (order_compare localeCompare) a b \<Longrightarrow>
         goes_before (order_compare localeCompare) b c \<Longrightarrow>
         goes_before (order_compare localeCompare) a c"
  using trans [of "localOrderId c" "localOrderId b" "localOrderId a"]
  by (auto simp: goes_before_def order_compare_def Let_def split: if_splits)

lemma goes_before_order_compare:
  "goes_before (order_compare localeCompare) a b =
     (\<not> (status a = COMPLETED \<and> status b \<noteq> COMPLETED) \<and>
      ((status a = COMPLETED) = (status b = COMPLETED) \<longrightarrow>
         localeCompare (localOrderId b) (localOrderId a) \<le> 0))"
  by (auto simp: goes_before_def order_compare_def Let_def)

text \<open>
  Claim C7. For a collation \<open>localeCompare\<close> that is a consistent comparator (total and
  transitive), in the displayed list no COMPLETED order stands before an order that is not
  COMPLETED, and of two orders of the same group the earlier one's local id is not below
  the later one's (descending); the displayed list is a permutation of the filtered one.
\<close>

theorem C7_display_order:
  assumes total: "\<And>a b. 0 < localeCompare a b \<Longrightarrow> localeCompare b a \<le> 0"
    and trans: "\<And>a b c. localeCompare a b \<le> 0 \<Longrightarrow> localeCompare b c \<le> 0 \<Longrightarrow>
                  localeCompare a c \<le> 0"
    and shown: "shown = filteredOrders localeCompare today term smart store st"
  shows "(\<forall>i j. i < j \<and> j < length shown \<longrightarrow>
            \<not> (status (shown ! i) = COMPLETED \<and> status (shown ! j) \<noteq> COMPLETED) \<and>
            ((status (shown ! i) = COMPLETED) = (status (shown ! j) = COMPLETED) \<longrightarrow>
               localeCompare (localOrderId (shown ! j)) (localOrderId (shown ! i)) \<le> 0))
       \<and> mset shown = mset (filtered_input today term smart store st)"
proof (intro conjI allI impI)
  let ?cmp = "order_compare localeCompare"
  have eq: "shown = js_sort ?cmp (filtered_input today term smart store st)"
    by (simp add: shown filteredOrders_def filtered_input_def Let_def)
  have t: "\<And>a b. \<not> goes_before ?cmp a b \<Longrightarrow> goes_before ?cmp b a"
    using order_compare_total [of localeCompare] total by blast
  have tr: "\<And>a b c. goes_before ?cmp a b \<Longrightarrow> goes_before ?cmp b c \<Longrightarrow> goes_before ?cmp a c"
    using order_compare_trans [of localeCompare] trans by blast
  have sorted: "sorted_wrt (goes_before ?cmp) shown"
    unfolding eq using t tr by (rule sorted_js_sort)
  show "mset shown = mset (filtered_input today term smart store st)"
    by (simp add: eq mset_js_sort)
  fix i j
  assume "i < j \<and> j < length shown"
  then have "goes_before ?cmp (shown ! i) (shown ! j)"
    using sorted by (simp add: sorted_wrt_iff_nth_less)
  then show "\<not> (status (shown ! i) = COMPLETED \<and> status (shown ! j) \<noteq> COMPLETED)"
    and "(status (shown ! i) = COMPLETED) = (status (shown ! j) = COMPLETED) \<Longrightarrow>
               localeCompare (localOrderId (shown ! j)) (localOrderId (shown ! i)) \<le> 0"
    by (simp_all add: goes_before_order_compare)
qed

theorem C7_display_order_witness:
  "filteredOrders by_length ''2025-03-01'' None ''all'' ''all'' state2 = [order2, order1, order0] \<and>
   status order0 = COMPLETED \<and> status order1 \<noteq> COMPLETED \<and> status order2 \<noteq> COMPLETED \<and>
   by_length (localOrderId order1) (localOrderId order2) \<le> 0"
proof -
  have h1: "\<And>a b. 0 < by_length a b \<Longrightarrow> by_length b a \<le> 0"
    by (simp add: by_length_def)
  have h2: "\<And>a b c. by_length a b \<le> 0 \<Longrightarrow> by_length b c \<le> 0 \<Longrightarrow> by_length a c \<le> 0"
    by (simp add: by_length_def)
  have h3: "filteredOrders by_length ''2025-03-01'' None ''all'' ''all'' state2 =
              [order2, order1, order0]"
    by (simp add: filteredOrders_def state2_def state0_def order0_def order1_def order2_def
        order_compare_def by_length_def truthy_string_def OrderStatus_defs)
  have h4: "status order0 = COMPLETED \<and> status order1 \<noteq> COMPLETED \<and> status order2 \<noteq> COMPLETED"
    by (simp add: order0_def order1_def order2_def OrderStatus_defs)
  from C7_display_order [OF h1 h2 h3 [symmetric]]
  have "by_length (localOrderId ([order2, order1, order0] ! 1))
          (localOrderId ([order2, order1, order0] ! 0)) \<le> 0"
    using h4 by force
  with h3 h4 show ?thesis by simp
qed


end
